theory Spec2Isabelle
  imports Main "HOL-Library.Word"
begin

unbundle bit_operations_syntax

section \<open>Strings as the Go code uses them\<close>

text \<open>
  A Go string is a sequence of bytes, as \<^typ>\<open>string\<close> is. The functions below are the
  ones of package \<open>strings\<close> and the slice expression that \<open>launch.go\<close> and
  \<open>preview.go\<close> call.
\<close>

definition newline :: char where
  "newline = CHR 0x0A"

definition HasPrefix :: "string \<Rightarrow> string \<Rightarrow> bool" where
  "HasPrefix s p = (length p \<le> length s \<and> take (length p) s = p)"

definition HasSuffix :: "string \<Rightarrow> string \<Rightarrow> bool" where
  "HasSuffix s suf = (length suf \<le> length s \<and> drop (length s - length suf) s = suf)"

definition TrimSuffix :: "string \<Rightarrow> string \<Rightarrow> string" where
  "TrimSuffix s suf = (if HasSuffix s suf then take (length s - length suf) s else s)"

fun Contains :: "string \<Rightarrow> string \<Rightarrow> bool" where
  "Contains [] sub = (sub = [])"
| "Contains (c # cs) sub = (HasPrefix (c # cs) sub \<or> Contains cs sub)"

text \<open>\<open>strings.Split(s, "\n")\<close>: the pieces between the separators, one more than there
  are separators.\<close>

fun Split :: "string \<Rightarrow> char \<Rightarrow> string list" where
  "Split [] sep = [[]]"
| "Split (c # cs) sep =
     (if c = sep then [] # Split cs sep
      else (case Split cs sep of [] \<Rightarrow> [[c]] | l # ls \<Rightarrow> (c # l) # ls))"

section \<open>The port read from the Dockerfile (launch.go, lines 68 to 74)\<close>

text \<open>
  \<open>line[len(line)-4:]\<close> panics when the line has fewer than four bytes; \<open>None\<close> is
  that panic.
\<close>

definition last4 :: "string \<Rightarrow> string option" where
  "last4 line = (if length line < 4 then None else Some (drop (length line - 4) line))"

fun scan_port :: "string list \<Rightarrow> string \<Rightarrow> string option" where
  "scan_port [] appPort = Some appPort"
| "scan_port (line # rest) appPort =
     (if HasPrefix line ''EXPOSE''
      then (case last4 line of None \<Rightarrow> None | Some p \<Rightarrow> scan_port rest p)
      else scan_port rest appPort)"

text \<open>
  \<open>res\<close> is the result of \<open>os.ReadFile("./Dockerfile")\<close>; when the read fails the
  code goes on with the empty byte slice.
\<close>

definition dockerfile_port :: "string option \<Rightarrow> string option" where
  "dockerfile_port res =
     scan_port (Split (case res of None \<Rightarrow> [] | Some s \<Rightarrow> s) newline) []"

definition expose_lines :: "string \<Rightarrow> string list" where
  "expose_lines s = filter (\<lambda>line. HasPrefix line ''EXPOSE'') (Split s newline)"

text \<open>
  The text input of pterm is an external library. \<open>Show\<close> returns the line the user
  submits; the line starts out holding the default value, so a user who only confirms
  submits the default. The answer is \<open>None\<close> for that user and \<open>Some s\<close> for one who
  submits \<open>s\<close>.
\<close>

definition Show :: "string option \<Rightarrow> string \<Rightarrow> string" where
  "Show answer dflt = (case answer of None \<Rightarrow> dflt | Some s \<Rightarrow> s)"

section \<open>The documents the commands write\<close>

text \<open>
  The struct declarations (\<open>DockerService\<close>, \<open>DockerNetwork\<close>,
  \<open>DockerComposeFile\<close>, \<open>SidekickAppConfig\<close>, \<open>SidekickPreview\<close>) are not
  among the sources; the records have the fields the two commands read and write. Field
  names carry a prefix where two structs share a name. \<open>launch.go\<close> fills no
  \<open>Environment\<close>: it is empty there.
\<close>

record DockerService =
  svc_Image :: string
  svc_Labels :: "string list"
  svc_Environment :: "string list"
  svc_Networks :: "string list"

record DockerNetwork =
  External :: bool

record DockerComposeFile =
  Services :: "string \<rightharpoonup> DockerService"
  Networks :: "string \<rightharpoonup> DockerNetwork"

text \<open>The record \<open>launch.go\<close> saves (\<open>cmd.SidekickAppConfig\<close>, lines 173 to 178).\<close>

record LaunchAppConfig =
  lc_Image :: string
  lc_Url :: string
  lc_CreatedAt :: string
  lc_LastDeployedAt :: string

record SidekickPreview =
  pv_Url :: string
  pv_Image :: string
  pv_CreatedAt :: string

text \<open>
  The record \<open>preview.go\<close> loads and saves (\<open>utils.SidekickAppConfig\<close>). The type
  of \<open>Port\<close> is declared outside the sources, so it is the parameter \<open>'p\<close>;
  \<open>Env_File\<close> is \<open>appConfig.Env.File\<close>.
\<close>

record 'p SidekickAppConfig =
  Name :: string
  Url :: string
  Port :: 'p
  Env_File :: string
  PreviewEnvs :: "string \<rightharpoonup> SidekickPreview"

text \<open>
  What a file holds: bytes, or the YAML of one of the three documents. \<open>yaml.Marshal\<close>
  is an external library: a marshalled document is kept as the document itself.
\<close>

datatype 'p content =
    Raw string
  | ComposeYaml DockerComposeFile
  | LaunchYaml LaunchAppConfig
  | AppYaml "'p SidekickAppConfig"

type_synonym path = string
type_synonym FileMode = "32 word"

record 'p disk_file =
  content :: "'p content"
  mode :: FileMode

section \<open>The world the commands act on\<close>

datatype script =
    SshKeysScript
  | DockerHandleScript
  | CheckGitTreeScript
  | GitShortHash
  | DockerBuildAndSaveScript
  | ImageMoveScript

text \<open>Every call that reaches outside the process, in the order the calls are made.\<close>

datatype 'p event =
    EvScript script
  | EvLogin
  | EvHandleEnvFile string
  | EvWriteFile path "'p content"
  | EvRunCommand string
  | EvRsync path string
  | EvRemove path

text \<open>
  \<open>files\<close> is the working directory, \<open>remote_dirs\<close> the directories in the remote
  user's home, \<open>trace\<close> the calls made so far.
\<close>

record 'p world =
  files :: "path \<rightharpoonup> 'p disk_file"
  remote_dirs :: "string list"
  trace :: "'p event list"

text \<open>
  Everything the run receives from outside: the settings viper holds, the answers typed
  at the prompts, the contents of the Dockerfile, the outputs of the git scripts, the
  clock, and which of the external operations fail.
\<close>

record 'p env =
  viper_err :: bool
  viper_values :: "string \<rightharpoonup> string"
  Dockerfile :: "string option"
  input_name :: "string option"
  input_port :: "string option"
  input_domain :: "string option"
  script_err :: "script \<Rightarrow> bool"
  git_tree_output :: string
  git_hash_output :: "string option"
  login_err :: bool
  env_file :: "string \<Rightarrow> (string list \<times> 'p disk_file) option"
  marshal_err :: "'p content \<Rightarrow> bool"
  write_err :: "path \<Rightarrow> bool"
  umask :: FileMode
  remote_err :: "string \<Rightarrow> bool"
  now_first :: string
  now_second :: string
  Sprint_port :: "'p \<Rightarrow> string"

text \<open>How the run of a command ends. A Go program that panics exits with status 2.\<close>

datatype failure =
    ConfigFailure
  | TypeAssertion
  | SliceBounds
  | ScriptFailure script
  | LoginFailure
  | EnvFileFailure
  | MarshalFailure
  | WriteFailure
  | RemoteFailure string

datatype outcome =
    Returned
  | ReturnedEarly failure
  | Panicked failure
  | Exited nat

text \<open>Whether the run ended in \<open>os.Exit\<close>.\<close>

fun exited :: "outcome \<Rightarrow> bool" where
  "exited (Exited n) = True"
| "exited out = False"

fun exit_status :: "outcome \<Rightarrow> nat" where
  "exit_status Returned = 0"
| "exit_status (ReturnedEarly f) = 0"
| "exit_status (Panicked f) = 2"
| "exit_status (Exited n) = n"

subsection \<open>The operations\<close>

definition record_call :: "'p event \<Rightarrow> 'p world \<Rightarrow> 'p world" where
  "record_call e w = w\<lparr>trace := trace w @ [e]\<rparr>"

text \<open>\<open>./sidekick.yml\<close> and \<open>sidekick.yml\<close> name one file.\<close>

definition clean :: "path \<Rightarrow> path" where
  "clean p = (if HasPrefix p ''./'' then drop 2 p else p)"

text \<open>The permission bits both commands pass to \<open>os.WriteFile\<close>: octal 0644.\<close>

definition perm_0644 :: FileMode where
  "perm_0644 = 0x1A4"

text \<open>
  \<open>os.WriteFile(name, data, perm)\<close>: creates the file with \<open>perm\<close> less the umask
  when it does not exist, otherwise replaces its contents and leaves its permissions. A
  write that fails leaves the directory as it was.
\<close>

definition WriteFile ::
  "'p env \<Rightarrow> path \<Rightarrow> 'p content \<Rightarrow> FileMode \<Rightarrow> 'p world \<Rightarrow> bool \<times> 'p world" where
  "WriteFile env name data perm w =
     (let w1 = record_call (EvWriteFile (clean name) data) w in
      if write_err env (clean name) then (False, w1)
      else (True, w1\<lparr>files := (files w1)(clean name \<mapsto>
              \<lparr>content = data,
               mode = (case files w1 (clean name) of
                         None \<Rightarrow> perm AND NOT (umask env)
                       | Some f \<Rightarrow> mode f)\<rparr>)\<rparr>))"

text \<open>\<open>os.Remove(name)\<close>, its error dropped as the deferred calls drop it.\<close>

definition Remove :: "path \<Rightarrow> 'p world \<Rightarrow> 'p world" where
  "Remove name w =
     (let w1 = record_call (EvRemove (clean name)) w in
      w1\<lparr>files := (files w1)(clean name := None)\<rparr>)"

text \<open>
  The error of \<open>yaml.Marshal\<close> is dropped where the record is saved; the bytes are
  then empty.
\<close>

definition marshal_dropping_error :: "'p env \<Rightarrow> 'p content \<Rightarrow> 'p content" where
  "marshal_dropping_error env doc = (if marshal_err env doc then Raw [] else doc)"

text \<open>
  Modelled from the spec: \<open>utils.RunCommand\<close> is not among the sources. It runs a
  shell command in the remote user's home over the session and returns an error when
  the command exits non-zero. Of the shell, \<open>mkdir\<close> is modelled: \<open>mkdir d\<close> fails
  when \<open>d\<close> exists, \<open>mkdir -p d\<close> does not. Any command can fail for a reason of
  the host's (\<open>remote_err\<close>).
\<close>

definition RunCommand :: "'p env \<Rightarrow> string \<Rightarrow> 'p world \<Rightarrow> bool \<times> 'p world" where
  "RunCommand env cmd w =
     (let w1 = record_call (EvRunCommand cmd) w in
      if remote_err env cmd then (False, w1)
      else if HasPrefix cmd ''mkdir -p ''
      then (True, w1\<lparr>remote_dirs := List.insert (drop 9 cmd) (remote_dirs w1)\<rparr>)
      else if HasPrefix cmd ''mkdir ''
      then (if drop 6 cmd \<in> set (remote_dirs w1) then (False, w1)
            else (True, w1\<lparr>remote_dirs := drop 6 cmd # remote_dirs w1\<rparr>))
      else (True, w1))"

text \<open>
  Modelled from the spec: \<open>utils.HandleEnvFile\<close> is not among the sources. It reads
  the environment file, encrypts it to \<open>encrypted.env\<close> and fills the service's
  environment assignments; \<open>None\<close> is its error.
\<close>

definition HandleEnvFile :: "'p env \<Rightarrow> string \<Rightarrow> 'p world \<Rightarrow> string list option \<times> 'p world" where
  "HandleEnvFile env name w =
     (let w1 = record_call (EvHandleEnvFile name) w in
      case env_file env name of
        None \<Rightarrow> (None, w1)
      | Some (assignments, encrypted) \<Rightarrow>
          (Some assignments, w1\<lparr>files := (files w1)(''encrypted.env'' \<mapsto> encrypted)\<rparr>))"

text \<open>
  Modelled from the spec: \<open>utils.LoadAppConfig\<close> is not among the sources. It parses
  \<open>sidekick.yml\<close>; a missing or corrupt file is an error.
\<close>

definition LoadAppConfig :: "'p world \<Rightarrow> 'p SidekickAppConfig option" where
  "LoadAppConfig w =
     (case files w ''sidekick.yml'' of
        Some f \<Rightarrow> (case content f of AppYaml c \<Rightarrow> Some c | _ \<Rightarrow> None)
      | None \<Rightarrow> None)"

text \<open>
  Deferred calls run, last deferred first, when the function returns or panics;
  \<open>os.Exit\<close> (and \<open>log.Fatal\<close>, which calls it) ends the process without running
  them.
\<close>

fun run_deferred :: "outcome \<Rightarrow> path list \<Rightarrow> 'p world \<Rightarrow> 'p world" where
  "run_deferred (Exited n) ds w = w"
| "run_deferred out ds w = fold Remove ds w"

section \<open>The launch command (launch.go)\<close>

definition backquote :: string where
  "backquote = [CHR 0x60]"

definition quote :: string where
  "quote = [CHR 0x27]"

text \<open>Lines 100 to 113.\<close>

definition launch_service :: "string \<Rightarrow> string \<Rightarrow> string \<Rightarrow> string \<Rightarrow> DockerService" where
  "launch_service imageName appName appDomain appPort =
     \<lparr>svc_Image = imageName,
      svc_Labels =
        [''traefik.enable=true'',
         ''traefik.http.routers.'' @ appName @ ''.rule=Host('' @ backquote @ appDomain @ backquote @ '')'',
         ''traefik.http.services.'' @ appName @ ''.loadbalancer.server.port='' @ appPort,
         ''traefik.http.routers.'' @ appName @ ''.tls=true'',
         ''traefik.http.routers.'' @ appName @ ''.tls.certresolver=default'',
         ''traefik.docker.network=sidekick''],
      svc_Environment = [],
      svc_Networks = [''sidekick'']\<rparr>"

text \<open>Lines 114 to 123.\<close>

definition launch_compose :: "string \<Rightarrow> DockerService \<Rightarrow> DockerComposeFile" where
  "launch_compose appName newService =
     \<lparr>Services = [appName \<mapsto> newService],
      Networks = [''sidekick'' \<mapsto> \<lparr>External = True\<rparr>]\<rparr>"

text \<open>Lines 93 to 96: the domain offered as default, and the domain the prompt returns.\<close>

definition launch_default_domain :: "string \<Rightarrow> string \<Rightarrow> string" where
  "launch_default_domain appName serverAddress = appName @ ''.'' @ serverAddress @ ''.sslip.io''"

definition launch_domain :: "'p env \<Rightarrow> string \<Rightarrow> string \<Rightarrow> string" where
  "launch_domain env appName serverAddress =
     Show (input_domain env) (launch_default_domain appName serverAddress)"

text \<open>Lines 173 to 178.\<close>

definition launch_record :: "'p env \<Rightarrow> string \<Rightarrow> string \<Rightarrow> string \<Rightarrow> LaunchAppConfig" where
  "launch_record env dockerUsername appName appDomain =
     \<lparr>lc_Image = dockerUsername @ ''/'' @ appName,
      lc_Url = appDomain,
      lc_CreatedAt = now_first env,
      lc_LastDeployedAt = now_second env\<rparr>"

text \<open>
  Lines 136 to 185, the part of the run that the deferred removal of the compose
  document covers. Progress bars and spinners are left out.
\<close>

definition launch_deploy ::
  "'p env \<Rightarrow> string \<Rightarrow> string \<Rightarrow> string \<Rightarrow> string \<Rightarrow> 'p world \<Rightarrow> outcome \<times> 'p world" where
  "launch_deploy env serverAddress dockerUsername appName appDomain w0 =
     (let w1 = record_call EvLogin w0 in
      if login_err env then (Panicked LoginFailure, w1) else
      let w2 = record_call (EvScript DockerHandleScript) w1 in
      if script_err env DockerHandleScript then (Panicked (ScriptFailure DockerHandleScript), w2) else
      let (ok3, w3) = RunCommand env (''mkdir '' @ appName) w2 in
      if \<not> ok3 then (Panicked (RemoteFailure (''mkdir '' @ appName)), w3) else
      let w4 = record_call
                 (EvRsync ''docker-compose.yaml'' (''root@'' @ serverAddress @ '':./'' @ appName)) w3;
          up = ''cd '' @ appName @ '' && docker compose -p sidekick up -d'';
          (ok5, w5) = RunCommand env up w4 in
      if \<not> ok5 then (Panicked (RemoteFailure up), w5) else
      let sidekickAppConfig = launch_record env dockerUsername appName appDomain;
          ymlData = marshal_dropping_error env (LaunchYaml sidekickAppConfig);
          (ok6, w6) = WriteFile env ''sidekick.yml'' ymlData perm_0644 w5
      in (Returned, w6))"

text \<open>
  Lines 42 to 134, then the rest under the deferred removal. Messages printed to the
  terminal, and the check for \<open>./dockerfile\<close> that only chooses a message, are left
  out.
\<close>

definition launchCmd :: "'p env \<Rightarrow> 'p world \<Rightarrow> outcome \<times> 'p world" where
  "launchCmd env w0 =
     (if viper_err env then (Panicked ConfigFailure, w0) else
      case viper_values env ''serverAddress'' of
        None \<Rightarrow> (Panicked TypeAssertion, w0)
      | Some serverAddress \<Rightarrow>
      let w1 = record_call (EvScript SshKeysScript) w0 in
      if script_err env SshKeysScript then (Panicked (ScriptFailure SshKeysScript), w1) else
      case dockerfile_port (Dockerfile env) of
        None \<Rightarrow> (Panicked SliceBounds, w1)
      | Some dockerfilePort \<Rightarrow>
      let appName = Show (input_name env) [] in
      if appName = [] \<or> Contains appName '' '' then (Exited 0, w1) else
      let appPort = Show (input_port env) dockerfilePort in
      if appPort = [] then (Exited 0, w1) else
      let appDomain = launch_domain env appName serverAddress in
      case viper_values env ''dockerUsername'' of
        None \<Rightarrow> (Panicked TypeAssertion, w1)
      | Some dockerUsername \<Rightarrow>
      let imageName = dockerUsername @ ''/'' @ appName;
          newService = launch_service imageName appName appDomain appPort;
          newDockerCompose = launch_compose appName newService in
      if marshal_err env (ComposeYaml newDockerCompose) then (ReturnedEarly MarshalFailure, w1) else
      let (ok2, w2) = WriteFile env ''docker-compose.yaml'' (ComposeYaml newDockerCompose) perm_0644 w1 in
      if \<not> ok2 then (ReturnedEarly WriteFailure, w2) else
      let (out, w3) = launch_deploy env serverAddress dockerUsername appName appDomain w2 in
      (out, run_deferred out [''docker-compose.yaml''] w3))"

section \<open>The preview command (preview.go)\<close>

text \<open>Lines 99 to 101.\<close>

definition preview_imageName :: "'p SidekickAppConfig \<Rightarrow> string \<Rightarrow> string" where
  "preview_imageName appConfig deployHash = Name appConfig @ '':'' @ deployHash"

definition preview_serviceName :: "'p SidekickAppConfig \<Rightarrow> string \<Rightarrow> string" where
  "preview_serviceName appConfig deployHash = Name appConfig @ ''-'' @ deployHash"

definition previewURL :: "'p SidekickAppConfig \<Rightarrow> string \<Rightarrow> string" where
  "previewURL appConfig deployHash = deployHash @ ''.'' @ Url appConfig"

text \<open>Lines 102 to 116.\<close>

definition preview_service ::
  "'p env \<Rightarrow> 'p SidekickAppConfig \<Rightarrow> string \<Rightarrow> string list \<Rightarrow> DockerService" where
  "preview_service env appConfig deployHash dockerEnvProperty =
     (let serviceName = preview_serviceName appConfig deployHash in
      \<lparr>svc_Image = preview_imageName appConfig deployHash,
       svc_Labels =
         [''traefik.enable=true'',
          ''traefik.http.routers.'' @ serviceName @ ''.rule=Host('' @ backquote
             @ previewURL appConfig deployHash @ backquote @ '')'',
          ''traefik.http.services.'' @ serviceName @ ''.loadbalancer.server.port=''
             @ Sprint_port env (Port appConfig),
          ''traefik.http.routers.'' @ serviceName @ ''.tls=true'',
          ''traefik.http.routers.'' @ serviceName @ ''.tls.certresolver=default'',
          ''traefik.docker.network=sidekick''],
       svc_Environment = dockerEnvProperty,
       svc_Networks = [''sidekick'']\<rparr>)"

text \<open>Lines 117 to 126.\<close>

definition preview_compose :: "string \<Rightarrow> DockerService \<Rightarrow> DockerComposeFile" where
  "preview_compose serviceName newService =
     \<lparr>Services = [serviceName \<mapsto> newService],
      Networks = [''sidekick'' \<mapsto> \<lparr>External = True\<rparr>]\<rparr>"

text \<open>Lines 186 to 192: the new entry, and the record with its preview map replaced.\<close>

definition previewEnvConfig :: "'p env \<Rightarrow> 'p SidekickAppConfig \<Rightarrow> string \<Rightarrow> SidekickPreview" where
  "previewEnvConfig env appConfig deployHash =
     \<lparr>pv_Url = ''https://'' @ previewURL appConfig deployHash,
      pv_Image = preview_imageName appConfig deployHash,
      pv_CreatedAt = now_first env\<rparr>"

definition preview_record ::
  "'p env \<Rightarrow> 'p SidekickAppConfig \<Rightarrow> string \<Rightarrow> 'p SidekickAppConfig" where
  "preview_record env appConfig deployHash =
     appConfig\<lparr>PreviewEnvs := Map.empty(deployHash \<mapsto> previewEnvConfig env appConfig deployHash)\<rparr>"

text \<open>The remote directory of a preview, and the activation command (lines 172 to 185).\<close>

definition preview_dir :: "'p SidekickAppConfig \<Rightarrow> string \<Rightarrow> string" where
  "preview_dir appConfig deployHash = Name appConfig @ ''/preview/'' @ deployHash"

definition preview_up :: "'p SidekickAppConfig \<Rightarrow> string \<Rightarrow> string" where
  "preview_up appConfig deployHash =
     (if Env_File appConfig \<noteq> []
      then ''cd '' @ preview_dir appConfig deployHash @ '' && sops exec-env encrypted.env ''
             @ quote @ ''docker compose -p sidekick up -d'' @ quote
      else ''cd '' @ preview_dir appConfig deployHash @ '' && docker compose -p sidekick up -d'')"

text \<open>
  Lines 139 to 204, the part of the run that both deferred removals cover. A failure
  of the build, of the image transfer or of the remote image load ends the process with
  \<open>os.Exit(1)\<close> or \<open>log.Fatal\<close>.
\<close>

definition preview_deploy ::
  "'p env \<Rightarrow> 'p SidekickAppConfig \<Rightarrow> string \<Rightarrow> string \<Rightarrow> 'p world \<Rightarrow> outcome \<times> 'p world" where
  "preview_deploy env appConfig deployHash serverAddress w0 =
     (let w1 = record_call (EvScript DockerBuildAndSaveScript) w0 in
      if script_err env DockerBuildAndSaveScript then (Exited 1, w1) else
      let w2 = record_call (EvScript ImageMoveScript) w1 in
      if script_err env ImageMoveScript then (Exited 1, w2) else
      let tar = Name appConfig @ ''-'' @ deployHash @ ''.tar'';
          (ok3, w3) = RunCommand env (''cd '' @ Name appConfig @ '' && docker load -i '' @ tar) w2 in
      if \<not> ok3 then (Exited 1, w3) else
      let (ok4, w4) = RunCommand env (''cd '' @ Name appConfig @ '' && rm '' @ tar) w3 in
      if \<not> ok4 then (Exited 1, w4) else
      let mkdir = ''mkdir -p '' @ preview_dir appConfig deployHash;
          (ok5, w5) = RunCommand env mkdir w4 in
      if \<not> ok5 then (Panicked (RemoteFailure mkdir), w5) else
      let dest = ''sidekick@'' @ serverAddress @ '':./'' @ preview_dir appConfig deployHash;
          w6 = record_call (EvRsync ''docker-compose.yaml'' dest) w5;
          w7 = (if Env_File appConfig \<noteq> [] then record_call (EvRsync ''encrypted.env'' dest) w6
                else w6);
          (ok8, w8) = RunCommand env (preview_up appConfig deployHash) w7 in
      if \<not> ok8 then (Panicked (RemoteFailure (preview_up appConfig deployHash)), w8) else
      let ymlData = marshal_dropping_error env (AppYaml (preview_record env appConfig deployHash));
          (ok9, w9) = WriteFile env ''./sidekick.yml'' ymlData perm_0644 w8
      in (Returned, w9))"

text \<open>Lines 99 to 137, then the rest under the deferred removal of the compose document.\<close>

definition preview_descriptor ::
  "'p env \<Rightarrow> 'p SidekickAppConfig \<Rightarrow> string \<Rightarrow> string \<Rightarrow> string list \<Rightarrow> 'p world
     \<Rightarrow> outcome \<times> 'p world" where
  "preview_descriptor env appConfig deployHash serverAddress dockerEnvProperty w0 =
     (let newService = preview_service env appConfig deployHash dockerEnvProperty;
          newDockerCompose = preview_compose (preview_serviceName appConfig deployHash) newService in
      if marshal_err env (ComposeYaml newDockerCompose) then (ReturnedEarly MarshalFailure, w0) else
      let (ok1, w1) = WriteFile env ''docker-compose.yaml'' (ComposeYaml newDockerCompose) perm_0644 w0 in
      if \<not> ok1 then (ReturnedEarly WriteFailure, w1) else
      let (out, w2) = preview_deploy env appConfig deployHash serverAddress w1 in
      (out, run_deferred out [''docker-compose.yaml''] w2))"

text \<open>
  Lines 39 to 97, then the rest under the deferred removal of the encrypted file.
  Messages printed to the terminal are left out.
\<close>

definition PreviewCmd :: "'p env \<Rightarrow> 'p world \<Rightarrow> outcome \<times> 'p world" where
  "PreviewCmd env w0 =
     (if viper_err env then (Exited 1, w0) else
      case LoadAppConfig w0 of
        None \<Rightarrow> (Exited 1, w0)
      | Some appConfig \<Rightarrow>
      let w1 = record_call (EvScript CheckGitTreeScript) w0 in
      if git_tree_output env \<noteq> ''all good'' @ [newline] then (Exited 1, w1) else
      let w2 = record_call (EvScript GitShortHash) w1 in
      case git_hash_output env of
        None \<Rightarrow> (Panicked (ScriptFailure GitShortHash), w2)
      | Some hashOutput \<Rightarrow>
      let deployHash = TrimSuffix hashOutput [newline] in
      case viper_values env ''serverAddress'' of
        None \<Rightarrow> (Panicked TypeAssertion, w2)
      | Some serverAddress \<Rightarrow>
      let w3 = record_call EvLogin w2 in
      if login_err env then (Panicked LoginFailure, w3) else
      let (handled, w4) =
            (if Env_File appConfig \<noteq> [] then HandleEnvFile env (Env_File appConfig) w3
             else (Some [], w3)) in
      case handled of
        None \<Rightarrow> (Panicked EnvFileFailure, w4)
      | Some dockerEnvProperty \<Rightarrow>
      let (out, w5) = preview_descriptor env appConfig deployHash serverAddress dockerEnvProperty w4 in
      (out, run_deferred out [''encrypted.env''] w5))"

section \<open>Concrete runs\<close>

text \<open>
  An environment in which nothing fails: the server is \<open>203.0.113.7\<close>, the registry
  user \<open>alice\<close>, the Dockerfile exposes port 80, the user names the application
  \<open>blog\<close>, types the port \<open>8080\<close> and confirms the offered domain; the head of the
  clean git tree is \<open>def456\<close>. The port of a saved record is a string here.
\<close>

definition example_env :: "string env" where
  "example_env =
     \<lparr>viper_err = False,
      viper_values = [''serverAddress'' \<mapsto> ''203.0.113.7'', ''dockerUsername'' \<mapsto> ''alice''],
      Dockerfile = Some (''FROM alpine'' @ [newline] @ ''EXPOSE 80''),
      input_name = Some ''blog'',
      input_port = Some ''8080'',
      input_domain = None,
      script_err = (\<lambda>s. False),
      git_tree_output = ''all good'' @ [newline],
      git_hash_output = Some (''def456'' @ [newline]),
      login_err = False,
      env_file = (\<lambda>name. None),
      marshal_err = (\<lambda>doc. False),
      write_err = (\<lambda>name. False),
      umask = 0x12,
      remote_err = (\<lambda>cmd. False),
      now_first = ''Sun Nov  1 10:00:00 UTC 2026'',
      now_second = ''Sun Nov  1 10:00:01 UTC 2026'',
      Sprint_port = (\<lambda>p. p)\<rparr>"

text \<open>A fresh working directory and a remote home with no directory in it.\<close>

definition fresh_world :: "string world" where
  "fresh_world = \<lparr>files = Map.empty, remote_dirs = [], trace = []\<rparr>"

text \<open>
  A project that was launched before: its record holds one earlier preview,
  \<open>abc123\<close>, and no environment file.
\<close>

definition blog_config :: "string SidekickAppConfig" where
  "blog_config =
     \<lparr>Name = ''blog'',
      Url = ''blog.example.org'',
      Port = ''8080'',
      Env_File = [],
      PreviewEnvs = [''abc123'' \<mapsto>
        \<lparr>pv_Url = ''https://abc123.blog.example.org'',
         pv_Image = ''blog:abc123'',
         pv_CreatedAt = ''Sat Oct 31 09:00:00 UTC 2026''\<rparr>]\<rparr>"

definition launched_world :: "string world" where
  "launched_world =
     \<lparr>files = [''sidekick.yml'' \<mapsto> \<lparr>content = AppYaml blog_config, mode = 0x1A4\<rparr>],
      remote_dirs = [''blog''],
      trace = []\<rparr>"

text \<open>The same environment, but the user submits an empty name, or an empty port.\<close>

definition empty_name_env :: "string env" where
  "empty_name_env = example_env\<lparr>input_name := Some []\<rparr>"

definition empty_port_env :: "string env" where
  "empty_port_env = example_env\<lparr>input_port := Some []\<rparr>"

text \<open>The same environment, but the local image build fails.\<close>

definition build_fails_env :: "string env" where
  "build_fails_env = example_env\<lparr>script_err := (\<lambda>s. s = DockerBuildAndSaveScript)\<rparr>"

text \<open>
  A launched project with an environment file, which \<open>HandleEnvFile\<close> encrypts, and
  whose image build fails.
\<close>

definition secret_world :: "string world" where
  "secret_world =
     \<lparr>files = [''sidekick.yml'' \<mapsto>
        \<lparr>content = AppYaml (blog_config\<lparr>Env_File := ''.env''\<rparr>), mode = 0x1A4\<rparr>],
      remote_dirs = [''blog''],
      trace = []\<rparr>"

definition secret_build_fails_env :: "string env" where
  "secret_build_fails_env =
     build_fails_env\<lparr>env_file :=
       (\<lambda>name. Some ([''TOKEN=${TOKEN}''], \<lparr>content = Raw ''ciphertext'', mode = 0x1A4\<rparr>))\<rparr>"

text \<open>The same environment, but the user confirms the port the prompt offers.\<close>

definition confirm_port_env :: "string env" where
  "confirm_port_env = example_env\<lparr>input_port := None\<rparr>"

text \<open>A remote home in which the directory of this revision's preview exists already.\<close>

definition redeployed_world :: "string world" where
  "redeployed_world = launched_world\<lparr>remote_dirs := [''blog/preview/def456'', ''blog'']\<rparr>"

section \<open>Observations on a run\<close>

text \<open>The calls made between two worlds of one run.\<close>

definition calls :: "'p world \<Rightarrow> 'p world \<Rightarrow> 'p event list" where
  "calls w w' = drop (length (trace w)) (trace w')"

text \<open>
  The environment assignments of the preview service (\<open>dockerEnvProperty\<close>, lines 88
  to 96): what \<open>HandleEnvFile\<close> fills in when an environment file is configured, and
  empty otherwise.
\<close>

definition dockerEnvProperty :: "'p env \<Rightarrow> 'p SidekickAppConfig \<Rightarrow> string list" where
  "dockerEnvProperty env appConfig =
     (if Env_File appConfig \<noteq> []
      then (case env_file env (Env_File appConfig) of
              None \<Rightarrow> []
            | Some (assignments, encrypted) \<Rightarrow> assignments)
      else [])"

text \<open>
  Which calls are the write of the compose document, the login and the image build, and
  whether a call of one kind is made before the first call of another kind.
\<close>

fun is_compose_write :: "'p event \<Rightarrow> bool" where
  "is_compose_write (EvWriteFile n d) = (n = ''docker-compose.yaml'')"
| "is_compose_write e = False"

fun is_login :: "'p event \<Rightarrow> bool" where
  "is_login EvLogin = True"
| "is_login e = False"

fun is_image_build :: "'p event \<Rightarrow> bool" where
  "is_image_build (EvScript s) = (s = DockerHandleScript \<or> s = DockerBuildAndSaveScript)"
| "is_image_build e = False"

definition occurs_before :: "('a \<Rightarrow> bool) \<Rightarrow> ('a \<Rightarrow> bool) \<Rightarrow> 'a list \<Rightarrow> bool" where
  "occurs_before A B tr = list_ex A (takeWhile (\<lambda>e. \<not> B e) tr)"

text \<open>
  Permission bits that give access to the owner only: none of the group's and others'
  bits (octal 077) is set.
\<close>

definition owner_only :: "FileMode \<Rightarrow> bool" where
  "owner_only m = (m AND 0x3F = 0)"

text \<open>The public URL in the record that \<open>launch.go\<close> saved, when there is one.\<close>

definition launch_saved_url :: "'p world \<Rightarrow> string option" where
  "launch_saved_url w =
     (case files w ''sidekick.yml'' of
        None \<Rightarrow> None
      | Some f \<Rightarrow> (case content f of LaunchYaml r \<Rightarrow> Some (lc_Url r) | _ \<Rightarrow> None))"

section \<open>Properties\<close>

subsection \<open>The port read from the Dockerfile\<close>

lemma HasPrefix_EXPOSE_length: "HasPrefix line ''EXPOSE'' \<Longrightarrow> 6 \<le> length line"
  by (simp add: HasPrefix_def)

lemma scan_port_filter:
  "scan_port ls p =
     Some (case filter (\<lambda>line. HasPrefix line ''EXPOSE'') ls of
             [] \<Rightarrow> p
           | x # xs \<Rightarrow> drop (length (last (x # xs)) - 4) (last (x # xs)))"
proof (induction ls arbitrary: p)
  case Nil
  then show ?case by simp
next
  case (Cons l ls)
  show ?case
  proof (cases "HasPrefix l ''EXPOSE''")
    case True
    then have "last4 l = Some (drop (length l - 4) l)"
      using HasPrefix_EXPOSE_length [of l] by (simp add: last4_def)
    with True Cons.IH show ?thesis
      by (simp split: list.splits)
  next
    case False
    with Cons.IH show ?thesis by simp
  qed
qed

lemma dockerfile_port_expose:
  assumes "expose_lines s \<noteq> []"
  shows "dockerfile_port (Some s) =
           Some (drop (length (last (expose_lines s)) - 4) (last (expose_lines s)))"
  using assms
  by (simp add: dockerfile_port_def scan_port_filter expose_lines_def split: list.splits)

lemma drop_append_keep: "n \<le> length xs \<Longrightarrow> drop n (xs @ ys) = drop n xs @ ys"
  by simp

subsection \<open>What the operations change\<close>

lemma record_call_fields [simp]:
  "trace (record_call e w) = trace w @ [e]"
  "files (record_call e w) = files w"
  "remote_dirs (record_call e w) = remote_dirs w"
  by (simp_all add: record_call_def)

lemma clean_names [simp]:
  "clean ''docker-compose.yaml'' = ''docker-compose.yaml''"
  "clean ''sidekick.yml'' = ''sidekick.yml''"
  "clean ''./sidekick.yml'' = ''sidekick.yml''"
  "clean ''encrypted.env'' = ''encrypted.env''"
  by (simp_all add: clean_def HasPrefix_def)

lemma WriteFile_fields [simp]:
  "fst (WriteFile env n d p w) = (\<not> write_err env (clean n))"
  "trace (snd (WriteFile env n d p w)) = trace w @ [EvWriteFile (clean n) d]"
  "remote_dirs (snd (WriteFile env n d p w)) = remote_dirs w"
  "files (snd (WriteFile env n d p w)) =
     (if write_err env (clean n) then files w
      else (files w)(clean n \<mapsto>
             \<lparr>content = d,
              mode = (case files w (clean n) of
                        None \<Rightarrow> p AND NOT (umask env)
                      | Some f \<Rightarrow> mode f)\<rparr>))"
  by (simp_all add: WriteFile_def Let_def)

lemma Remove_fields [simp]:
  "trace (Remove n w) = trace w @ [EvRemove (clean n)]"
  "remote_dirs (Remove n w) = remote_dirs w"
  "files (Remove n w) = (files w)(clean n := None)"
  by (simp_all add: Remove_def Let_def)

lemma RunCommand_fields [simp]:
  "trace (snd (RunCommand env cmd w)) = trace w @ [EvRunCommand cmd]"
  "files (snd (RunCommand env cmd w)) = files w"
  by (simp_all add: RunCommand_def Let_def)

lemma HandleEnvFile_fields [simp]:
  "trace (snd (HandleEnvFile env n w)) = trace w @ [EvHandleEnvFile n]"
  "remote_dirs (snd (HandleEnvFile env n w)) = remote_dirs w"
  by (simp_all add: HandleEnvFile_def Let_def split: option.splits)

lemma launch_deploy_Returned:
  assumes "fst (launch_deploy env sa du an ad w) = Returned"
  shows "trace (snd (launch_deploy env sa du an ad w)) =
           trace w @
           [EvLogin,
            EvScript DockerHandleScript,
            EvRunCommand (''mkdir '' @ an),
            EvRsync ''docker-compose.yaml'' (''root@'' @ sa @ '':./'' @ an),
            EvRunCommand (''cd '' @ an @ '' && docker compose -p sidekick up -d''),
            EvWriteFile ''sidekick.yml'' (marshal_dropping_error env (LaunchYaml (launch_record env du an ad)))]"
    and "files (snd (launch_deploy env sa du an ad w)) =
           (if write_err env ''sidekick.yml'' then files w
            else (files w)(''sidekick.yml'' \<mapsto>
               \<lparr>content = marshal_dropping_error env (LaunchYaml (launch_record env du an ad)),
                mode = (case files w ''sidekick.yml'' of
                          None \<Rightarrow> perm_0644 AND NOT (umask env)
                        | Some f \<Rightarrow> mode f)\<rparr>))"
  using assms
  by (simp_all add: launch_deploy_def Let_def case_prod_beta split: if_splits)

lemma run_deferred_fields:
  "trace (run_deferred out [n] w) = (case out of Exited k \<Rightarrow> trace w | _ \<Rightarrow> trace w @ [EvRemove (clean n)])"
  "files (run_deferred out [n] w) = (case out of Exited k \<Rightarrow> files w | _ \<Rightarrow> (files w)(clean n := None))"
  "remote_dirs (run_deferred out [n] w) = remote_dirs w"
  by (cases out; simp)+

lemma launchCmd_Returned_inputs:
  assumes "fst (launchCmd env w) = Returned"
  shows "\<exists>sa du dp.
      viper_values env ''serverAddress'' = Some sa
    \<and> viper_values env ''dockerUsername'' = Some du
    \<and> dockerfile_port (Dockerfile env) = Some dp
    \<and> Show (input_name env) [] \<noteq> []
    \<and> \<not> Contains (Show (input_name env) []) '' ''
    \<and> Show (input_port env) dp \<noteq> []"
  using assms
  by (simp add: launchCmd_def Let_def case_prod_beta split: if_splits option.splits)

lemma launchCmd_Returned_calls:
  assumes "fst (launchCmd env w) = Returned"
    and "viper_values env ''serverAddress'' = Some sa"
    and "viper_values env ''dockerUsername'' = Some du"
    and "dockerfile_port (Dockerfile env) = Some dp"
  shows "calls w (snd (launchCmd env w)) =
       [EvScript SshKeysScript,
        EvWriteFile ''docker-compose.yaml''
          (ComposeYaml (launch_compose (Show (input_name env) [])
             (launch_service (du @ ''/'' @ Show (input_name env) []) (Show (input_name env) [])
                (launch_domain env (Show (input_name env) []) sa) (Show (input_port env) dp)))),
        EvLogin,
        EvScript DockerHandleScript,
        EvRunCommand (''mkdir '' @ Show (input_name env) []),
        EvRsync ''docker-compose.yaml'' (''root@'' @ sa @ '':./'' @ Show (input_name env) []),
        EvRunCommand (''cd '' @ Show (input_name env) [] @ '' && docker compose -p sidekick up -d''),
        EvWriteFile ''sidekick.yml''
          (marshal_dropping_error env (LaunchYaml (launch_record env du (Show (input_name env) [])
             (launch_domain env (Show (input_name env) []) sa)))),
        EvRemove ''docker-compose.yaml'']"
  using assms
  by (simp add: calls_def launchCmd_def Let_def case_prod_beta run_deferred_fields
        launch_deploy_Returned split: if_splits)

lemma launchCmd_Returned_files:
  assumes "fst (launchCmd env w) = Returned"
    and "viper_values env ''serverAddress'' = Some sa"
    and "viper_values env ''dockerUsername'' = Some du"
  shows "files (snd (launchCmd env w)) ''sidekick.yml'' =
       (if write_err env ''sidekick.yml'' then files w ''sidekick.yml''
        else Some
           \<lparr>content = marshal_dropping_error env (LaunchYaml (launch_record env du (Show (input_name env) [])
               (launch_domain env (Show (input_name env) []) sa))),
            mode = (case files w ''sidekick.yml'' of
                      None \<Rightarrow> perm_0644 AND NOT (umask env)
                    | Some f \<Rightarrow> mode f)\<rparr>)"
    and "files (snd (launchCmd env w)) ''docker-compose.yaml'' = None"
  using assms
  by (simp_all add: launchCmd_def Let_def case_prod_beta run_deferred_fields
        launch_deploy_Returned split: if_splits option.split_asm)

lemma preview_deploy_Returned:
  assumes "fst (preview_deploy env c h sa w) = Returned"
  shows "trace (snd (preview_deploy env c h sa w)) =
           trace w @
           [EvScript DockerBuildAndSaveScript,
            EvScript ImageMoveScript,
            EvRunCommand (''cd '' @ Name c @ '' && docker load -i '' @ Name c @ ''-'' @ h @ ''.tar''),
            EvRunCommand (''cd '' @ Name c @ '' && rm '' @ Name c @ ''-'' @ h @ ''.tar''),
            EvRunCommand (''mkdir -p '' @ preview_dir c h),
            EvRsync ''docker-compose.yaml'' (''sidekick@'' @ sa @ '':./'' @ preview_dir c h)] @
           (if Env_File c \<noteq> []
            then [EvRsync ''encrypted.env'' (''sidekick@'' @ sa @ '':./'' @ preview_dir c h)]
            else []) @
           [EvRunCommand (preview_up c h),
            EvWriteFile ''sidekick.yml'' (marshal_dropping_error env (AppYaml (preview_record env c h)))]"
    and "files (snd (preview_deploy env c h sa w)) =
           (if write_err env ''sidekick.yml'' then files w
            else (files w)(''sidekick.yml'' \<mapsto>
               \<lparr>content = marshal_dropping_error env (AppYaml (preview_record env c h)),
                mode = (case files w ''sidekick.yml'' of
                          None \<Rightarrow> perm_0644 AND NOT (umask env)
                        | Some f \<Rightarrow> mode f)\<rparr>))"
  using assms
  by (simp_all add: preview_deploy_def Let_def case_prod_beta split: if_splits)

lemma preview_descriptor_Returned:
  assumes "fst (preview_descriptor env c h sa envs w) = Returned"
  shows "trace (snd (preview_descriptor env c h sa envs w)) =
           trace w @
           [EvWriteFile ''docker-compose.yaml''
              (ComposeYaml (preview_compose (preview_serviceName c h) (preview_service env c h envs))),
            EvScript DockerBuildAndSaveScript,
            EvScript ImageMoveScript,
            EvRunCommand (''cd '' @ Name c @ '' && docker load -i '' @ Name c @ ''-'' @ h @ ''.tar''),
            EvRunCommand (''cd '' @ Name c @ '' && rm '' @ Name c @ ''-'' @ h @ ''.tar''),
            EvRunCommand (''mkdir -p '' @ preview_dir c h),
            EvRsync ''docker-compose.yaml'' (''sidekick@'' @ sa @ '':./'' @ preview_dir c h)] @
           (if Env_File c \<noteq> []
            then [EvRsync ''encrypted.env'' (''sidekick@'' @ sa @ '':./'' @ preview_dir c h)]
            else []) @
           [EvRunCommand (preview_up c h),
            EvWriteFile ''sidekick.yml'' (marshal_dropping_error env (AppYaml (preview_record env c h))),
            EvRemove ''docker-compose.yaml'']"
    and "files (snd (preview_descriptor env c h sa envs w)) ''sidekick.yml'' =
           (if write_err env ''sidekick.yml'' then files w ''sidekick.yml''
            else Some
               \<lparr>content = marshal_dropping_error env (AppYaml (preview_record env c h)),
                mode = (case files w ''sidekick.yml'' of
                          None \<Rightarrow> perm_0644 AND NOT (umask env)
                        | Some f \<Rightarrow> mode f)\<rparr>)"
    and "files (snd (preview_descriptor env c h sa envs w)) ''docker-compose.yaml'' = None"
  using assms
  by (simp_all add: preview_descriptor_def Let_def case_prod_beta run_deferred_fields
        preview_deploy_Returned split: if_splits)

lemma HandleEnvFile_sidekick [simp]:
  "files (snd (HandleEnvFile env n w)) ''sidekick.yml'' = files w ''sidekick.yml''"
  by (simp add: HandleEnvFile_def Let_def split: option.splits)

lemma HandleEnvFile_fst [simp]:
  "fst (HandleEnvFile env n w) = map_option fst (env_file env n)"
  by (simp add: HandleEnvFile_def Let_def split: option.splits)

lemma PreviewCmd_Returned_inputs:
  assumes "fst (PreviewCmd env w) = Returned"
  shows "\<exists>c ho sa.
      LoadAppConfig w = Some c
    \<and> git_hash_output env = Some ho
    \<and> viper_values env ''serverAddress'' = Some sa"
  using assms
  by (simp add: PreviewCmd_def Let_def case_prod_beta split: if_splits option.splits)

lemma PreviewCmd_Returned_calls:
  assumes "fst (PreviewCmd env w) = Returned"
    and "LoadAppConfig w = Some c"
    and "git_hash_output env = Some ho"
    and "viper_values env ''serverAddress'' = Some sa"
  shows "calls w (snd (PreviewCmd env w)) =
       [EvScript CheckGitTreeScript, EvScript GitShortHash, EvLogin] @
       (if Env_File c \<noteq> [] then [EvHandleEnvFile (Env_File c)] else []) @
       [EvWriteFile ''docker-compose.yaml''
          (ComposeYaml (preview_compose (preview_serviceName c (TrimSuffix ho [newline]))
             (preview_service env c (TrimSuffix ho [newline]) (dockerEnvProperty env c)))),
        EvScript DockerBuildAndSaveScript,
        EvScript ImageMoveScript,
        EvRunCommand (''cd '' @ Name c @ '' && docker load -i '' @ Name c @ ''-''
           @ TrimSuffix ho [newline] @ ''.tar''),
        EvRunCommand (''cd '' @ Name c @ '' && rm '' @ Name c @ ''-'' @ TrimSuffix ho [newline] @ ''.tar''),
        EvRunCommand (''mkdir -p '' @ preview_dir c (TrimSuffix ho [newline])),
        EvRsync ''docker-compose.yaml''
          (''sidekick@'' @ sa @ '':./'' @ preview_dir c (TrimSuffix ho [newline]))] @
       (if Env_File c \<noteq> []
        then [EvRsync ''encrypted.env''
                (''sidekick@'' @ sa @ '':./'' @ preview_dir c (TrimSuffix ho [newline]))]
        else []) @
       [EvRunCommand (preview_up c (TrimSuffix ho [newline])),
        EvWriteFile ''sidekick.yml''
          (marshal_dropping_error env (AppYaml (preview_record env c (TrimSuffix ho [newline])))),
        EvRemove ''docker-compose.yaml'',
        EvRemove ''encrypted.env'']"
  using assms
  by (auto simp add: calls_def PreviewCmd_def Let_def case_prod_beta run_deferred_fields
        preview_descriptor_Returned dockerEnvProperty_def split: if_splits option.split_asm)

lemma PreviewCmd_Returned_files:
  assumes "fst (PreviewCmd env w) = Returned"
    and "LoadAppConfig w = Some c"
    and "git_hash_output env = Some ho"
  shows "files (snd (PreviewCmd env w)) ''sidekick.yml'' =
       (if write_err env ''sidekick.yml'' then files w ''sidekick.yml''
        else Some
           \<lparr>content = marshal_dropping_error env (AppYaml (preview_record env c (TrimSuffix ho [newline]))),
            mode = (case files w ''sidekick.yml'' of
                      None \<Rightarrow> perm_0644 AND NOT (umask env)
                    | Some f \<Rightarrow> mode f)\<rparr>)"
    and "files (snd (PreviewCmd env w)) ''docker-compose.yaml'' = None"
    and "files (snd (PreviewCmd env w)) ''encrypted.env'' = None"
  using assms
  by (simp_all add: PreviewCmd_def Let_def case_prod_beta run_deferred_fields
        preview_descriptor_Returned split: if_splits option.split_asm)

lemma marshal_dropping_error_not_compose [simp]:
  "marshal_dropping_error env (LaunchYaml r) \<noteq> ComposeYaml d"
  "marshal_dropping_error env (AppYaml c) \<noteq> ComposeYaml d"
  "ComposeYaml d \<noteq> marshal_dropping_error env (LaunchYaml r)"
  "ComposeYaml d \<noteq> marshal_dropping_error env (AppYaml c)"
  by (simp_all add: marshal_dropping_error_def)

lemma in_drop_append:
  "e \<notin> set ys \<Longrightarrow> e \<in> set (drop k (xs @ ys)) \<longleftrightarrow> e \<in> set (drop k xs)"
  by (auto dest: in_set_dropD)

lemma run_deferred_compose [simp]:
  "EvWriteFile m d \<in> set (drop k (trace (run_deferred out [n] w)))
     \<longleftrightarrow> EvWriteFile m d \<in> set (drop k (trace w))"
  by (cases out) (simp_all add: in_drop_append del: drop_append)

lemma launch_deploy_no_compose:
  "\<exists>es. trace (snd (launch_deploy env sa du an ad w)) = trace w @ es
        \<and> (\<forall>n d. EvWriteFile n (ComposeYaml d) \<notin> set es)"
  by (simp add: launch_deploy_def Let_def case_prod_beta)

lemma preview_deploy_no_compose:
  "\<exists>es. trace (snd (preview_deploy env c h sa w)) = trace w @ es
        \<and> (\<forall>n d. EvWriteFile n (ComposeYaml d) \<notin> set es)"
  by (simp add: preview_deploy_def Let_def case_prod_beta)

lemma launch_deploy_compose [simp]:
  "EvWriteFile n (ComposeYaml d) \<in> set (drop k (trace (snd (launch_deploy env sa du an ad w))))
     \<longleftrightarrow> EvWriteFile n (ComposeYaml d) \<in> set (drop k (trace w))"
proof -
  obtain es where "trace (snd (launch_deploy env sa du an ad w)) = trace w @ es"
    and "EvWriteFile n (ComposeYaml d) \<notin> set es"
    using launch_deploy_no_compose [of env sa du an ad w] by blast
  then show ?thesis
    by (simp add: in_drop_append del: drop_append)
qed

lemma preview_deploy_compose [simp]:
  "EvWriteFile n (ComposeYaml d) \<in> set (drop k (trace (snd (preview_deploy env c h sa w))))
     \<longleftrightarrow> EvWriteFile n (ComposeYaml d) \<in> set (drop k (trace w))"
proof -
  obtain es where "trace (snd (preview_deploy env c h sa w)) = trace w @ es"
    and "EvWriteFile n (ComposeYaml d) \<notin> set es"
    using preview_deploy_no_compose [of env c h sa w] by blast
  then show ?thesis
    by (simp add: in_drop_append del: drop_append)
qed

lemma launchCmd_compose_written:
  assumes "EvWriteFile n (ComposeYaml d) \<in> set (calls w (snd (launchCmd env w)))"
  obtains sa du dp where
    "viper_values env ''serverAddress'' = Some sa"
    "viper_values env ''dockerUsername'' = Some du"
    "dockerfile_port (Dockerfile env) = Some dp"
    "n = ''docker-compose.yaml''"
    "d = launch_compose (Show (input_name env) [])
           (launch_service (du @ ''/'' @ Show (input_name env) []) (Show (input_name env) [])
              (launch_domain env (Show (input_name env) []) sa) (Show (input_port env) dp))"
  using assms
  by (auto simp add: calls_def launchCmd_def Let_def case_prod_beta
        split: if_splits option.splits dest: in_set_dropD)

lemma preview_descriptor_compose:
  assumes "EvWriteFile n (ComposeYaml d) \<in> set (drop k (trace (snd (preview_descriptor env c h sa envs w))))"
  shows "EvWriteFile n (ComposeYaml d) \<in> set (drop k (trace w))
         \<or> n = ''docker-compose.yaml''
           \<and> d = preview_compose (preview_serviceName c h) (preview_service env c h envs)"
  using assms
  by (auto simp add: preview_descriptor_def Let_def case_prod_beta
        split: if_splits option.splits dest: in_set_dropD)

lemma PreviewCmd_compose_written:
  assumes "EvWriteFile n (ComposeYaml d) \<in> set (calls w (snd (PreviewCmd env w)))"
  obtains c ho envs where
    "LoadAppConfig w = Some c"
    "git_hash_output env = Some ho"
    "n = ''docker-compose.yaml''"
    "d = preview_compose (preview_serviceName c (TrimSuffix ho [newline]))
           (preview_service env c (TrimSuffix ho [newline]) envs)"
  using assms
  by (auto simp add: calls_def PreviewCmd_def Let_def case_prod_beta
        split: if_splits option.splits dest!: preview_descriptor_compose dest: in_set_dropD)



subsection \<open>Evaluating the concrete runs\<close>

lemmas run_defs =
  launchCmd_def launch_deploy_def PreviewCmd_def preview_descriptor_def preview_deploy_def
  RunCommand_def HandleEnvFile_def LoadAppConfig_def marshal_dropping_error_def
  launch_domain_def launch_default_domain_def launch_record_def
  preview_dir_def preview_up_def preview_record_def previewEnvConfig_def previewURL_def
  preview_imageName_def preview_serviceName_def
  dockerfile_port_def last4_def HasPrefix_def HasSuffix_def TrimSuffix_def Show_def newline_def
  Let_def case_prod_beta

lemma example_launch_outcome:
  "fst (launchCmd example_env fresh_world) = Returned"
  by (simp add: run_defs example_env_def fresh_world_def)

lemma example_preview_outcome:
  "fst (PreviewCmd example_env launched_world) = Returned"
  by (simp add: run_defs example_env_def launched_world_def blog_config_def)

lemma example_inputs:
  "LoadAppConfig launched_world = Some blog_config"
  "git_hash_output example_env = Some (''def456'' @ [newline])"
  "TrimSuffix (''def456'' @ [newline]) [newline] = ''def456''"
  "viper_values example_env ''serverAddress'' = Some ''203.0.113.7''"
  "viper_values example_env ''dockerUsername'' = Some ''alice''"
  "dockerfile_port (Dockerfile example_env) = Some ''E 80''"
  "\<not> marshal_err example_env doc"
  "\<not> write_err example_env name"
  "input_domain example_env = None"
  "input_name example_env = Some ''blog''"
  "input_port example_env = Some ''8080''"
  by (simp_all add: run_defs example_env_def launched_world_def)

lemma example_launch_calls:
  "calls fresh_world (snd (launchCmd example_env fresh_world)) =
    [EvScript SshKeysScript,
     EvWriteFile ''docker-compose.yaml''
       (ComposeYaml (launch_compose ''blog''
          (launch_service ''alice/blog'' ''blog'' ''blog.203.0.113.7.sslip.io'' ''8080''))),
     EvLogin,
     EvScript DockerHandleScript,
     EvRunCommand ''mkdir blog'',
     EvRsync ''docker-compose.yaml'' ''root@203.0.113.7:./blog'',
     EvRunCommand ''cd blog && docker compose -p sidekick up -d'',
     EvWriteFile ''sidekick.yml''
       (LaunchYaml \<lparr>lc_Image = ''alice/blog'', lc_Url = ''blog.203.0.113.7.sslip.io'',
          lc_CreatedAt = ''Sun Nov  1 10:00:00 UTC 2026'',
          lc_LastDeployedAt = ''Sun Nov  1 10:00:01 UTC 2026''\<rparr>),
     EvRemove ''docker-compose.yaml'']"
  by (simp add: calls_def run_defs example_env_def fresh_world_def)

lemma example_preview_calls:
  "calls launched_world (snd (PreviewCmd example_env launched_world)) =
    [EvScript CheckGitTreeScript,
     EvScript GitShortHash,
     EvLogin,
     EvWriteFile ''docker-compose.yaml''
       (ComposeYaml (preview_compose ''blog-def456''
          (preview_service example_env blog_config ''def456'' []))),
     EvScript DockerBuildAndSaveScript,
     EvScript ImageMoveScript,
     EvRunCommand ''cd blog && docker load -i blog-def456.tar'',
     EvRunCommand ''cd blog && rm blog-def456.tar'',
     EvRunCommand ''mkdir -p blog/preview/def456'',
     EvRsync ''docker-compose.yaml'' ''sidekick@203.0.113.7:./blog/preview/def456'',
     EvRunCommand ''cd blog/preview/def456 && docker compose -p sidekick up -d'',
     EvWriteFile ''sidekick.yml''
       (AppYaml (blog_config\<lparr>PreviewEnvs := [''def456'' \<mapsto>
          \<lparr>pv_Url = ''https://def456.blog.example.org'',
           pv_Image = ''blog:def456'',
           pv_CreatedAt = ''Sun Nov  1 10:00:00 UTC 2026''\<rparr>]\<rparr>)),
     EvRemove ''docker-compose.yaml'',
     EvRemove ''encrypted.env'']"
  by (simp add: calls_def run_defs example_env_def launched_world_def blog_config_def)

lemma preview_service_fields:
  "svc_Image (preview_service env c h envs) = Name c @ '':'' @ h"
  "svc_Labels (preview_service env c h envs) =
     [''traefik.enable=true'',
      ''traefik.http.routers.'' @ Name c @ ''-'' @ h @ ''.rule=Host('' @ backquote
         @ h @ ''.'' @ Url c @ backquote @ '')'',
      ''traefik.http.services.'' @ Name c @ ''-'' @ h @ ''.loadbalancer.server.port=''
         @ Sprint_port env (Port c),
      ''traefik.http.routers.'' @ Name c @ ''-'' @ h @ ''.tls=true'',
      ''traefik.http.routers.'' @ Name c @ ''-'' @ h @ ''.tls.certresolver=default'',
      ''traefik.docker.network=sidekick'']"
  by (simp_all add: preview_service_def preview_imageName_def preview_serviceName_def
        previewURL_def Let_def)

lemma launch_service_fields:
  "svc_Image (launch_service img name host port) = img"
  "svc_Labels (launch_service img name host port) =
     [''traefik.enable=true'',
      ''traefik.http.routers.'' @ name @ ''.rule=Host('' @ backquote @ host @ backquote @ '')'',
      ''traefik.http.services.'' @ name @ ''.loadbalancer.server.port='' @ port,
      ''traefik.http.routers.'' @ name @ ''.tls=true'',
      ''traefik.http.routers.'' @ name @ ''.tls.certresolver=default'',
      ''traefik.docker.network=sidekick'']"
  by (simp_all add: launch_service_def)

subsection \<open>Names of a preview deployment\<close>

text \<open>
  C1. Let \<open>n\<close> be the name in the loaded record and \<open>h\<close> the revision hash (the
  output of \<open>git rev-parse --short HEAD\<close> without its final newline). A preview run
  that returns, and whose write of the record does not fail, has written a compose
  document whose only service is named \<open>n-h\<close>, with image \<open>n:h\<close> and a host rule
  for \<open>h.<url of the record>\<close>; and the record then saved in \<open>sidekick.yml\<close> has
  at \<open>h\<close> a preview entry whose image is \<open>n:h\<close>.
\<close>

theorem preview_names_follow_revision:
  assumes "PreviewCmd env w = (Returned, w')"
    and "LoadAppConfig w = Some appConfig"
    and "git_hash_output env = Some hashOutput"
    and "h = TrimSuffix hashOutput [newline]"
    and "n = Name appConfig"
    and "\<not> marshal_err env (AppYaml (preview_record env appConfig h))"
    and "\<not> write_err env ''sidekick.yml''"
  shows "\<exists>d svc f c p.
           EvWriteFile ''docker-compose.yaml'' (ComposeYaml d) \<in> set (calls w w')
         \<and> Services d = [n @ ''-'' @ h \<mapsto> svc]
         \<and> svc_Image svc = n @ '':'' @ h
         \<and> svc_Labels svc ! 1 =
             ''traefik.http.routers.'' @ n @ ''-'' @ h @ ''.rule=Host('' @ backquote
               @ h @ ''.'' @ Url appConfig @ backquote @ '')''
         \<and> files w' ''sidekick.yml'' = Some f
         \<and> content f = AppYaml c
         \<and> PreviewEnvs c h = Some p
         \<and> pv_Image p = n @ '':'' @ h
         \<and> pv_Url p = ''https://'' @ h @ ''.'' @ Url appConfig"
proof -
  from assms(1) have ret: "fst (PreviewCmd env w) = Returned" and w': "w' = snd (PreviewCmd env w)"
    by simp_all
  from PreviewCmd_Returned_inputs [OF ret] assms(2,3) obtain sa
    where sa: "viper_values env ''serverAddress'' = Some sa"
    by auto
  let ?svc = "preview_service env appConfig h (dockerEnvProperty env appConfig)"
  let ?d = "preview_compose (preview_serviceName appConfig h) ?svc"
  let ?f = "\<lparr>content = AppYaml (preview_record env appConfig h),
            mode = (case files w ''sidekick.yml'' of
                      None \<Rightarrow> perm_0644 AND NOT (umask env)
                    | Some f \<Rightarrow> mode f)\<rparr>"
  have 1: "EvWriteFile ''docker-compose.yaml'' (ComposeYaml ?d) \<in> set (calls w w')"
    unfolding w' PreviewCmd_Returned_calls [OF ret assms(2,3) sa] assms(4) by simp
  have 2: "Services ?d = [n @ ''-'' @ h \<mapsto> ?svc]"
    by (simp add: preview_compose_def preview_serviceName_def assms(5))
  have 3: "svc_Image ?svc = n @ '':'' @ h"
    by (simp add: preview_service_fields assms(5))
  have 4: "svc_Labels ?svc ! 1 =
             ''traefik.http.routers.'' @ n @ ''-'' @ h @ ''.rule=Host('' @ backquote
               @ h @ ''.'' @ Url appConfig @ backquote @ '')''"
    by (simp add: preview_service_fields assms(5))
  have 5: "files w' ''sidekick.yml'' = Some ?f"
    unfolding w' PreviewCmd_Returned_files(1) [OF ret assms(2,3)]
    using assms(4,6,7) by (simp add: marshal_dropping_error_def)
  have 6: "PreviewEnvs (preview_record env appConfig h) h = Some (previewEnvConfig env appConfig h)"
    by (simp add: preview_record_def)
  have 7: "pv_Image (previewEnvConfig env appConfig h) = n @ '':'' @ h"
    "pv_Url (previewEnvConfig env appConfig h) = ''https://'' @ h @ ''.'' @ Url appConfig"
    by (simp_all add: previewEnvConfig_def preview_imageName_def previewURL_def assms(5))
  have 8: "content ?f = AppYaml (preview_record env appConfig h)"
    by simp
  from 1 2 3 4 5 6 7 8 show ?thesis
    by blast
qed

theorem preview_names_follow_revision_witness:
  "PreviewCmd example_env launched_world = (Returned, snd (PreviewCmd example_env launched_world))
   \<and> LoadAppConfig launched_world = Some blog_config
   \<and> git_hash_output example_env = Some (''def456'' @ [newline])
   \<and> (\<exists>d svc f c p.
           EvWriteFile ''docker-compose.yaml'' (ComposeYaml d)
             \<in> set (calls launched_world (snd (PreviewCmd example_env launched_world)))
         \<and> Services d = [''blog-def456'' \<mapsto> svc]
         \<and> svc_Image svc = ''blog:def456''
         \<and> svc_Labels svc ! 1 =
             ''traefik.http.routers.blog-def456.rule=Host('' @ backquote
               @ ''def456.blog.example.org'' @ backquote @ '')''
         \<and> files (snd (PreviewCmd example_env launched_world)) ''sidekick.yml'' = Some f
         \<and> content f = AppYaml c
         \<and> PreviewEnvs c ''def456'' = Some p
         \<and> pv_Image p = ''blog:def456''
         \<and> pv_Url p = ''https://def456.blog.example.org'')"
proof -
  have run: "PreviewCmd example_env launched_world
               = (Returned, snd (PreviewCmd example_env launched_world))"
    by (simp add: prod_eq_iff example_preview_outcome)
  have h: "''def456'' = TrimSuffix (''def456'' @ [newline]) [newline]"
    by (simp add: TrimSuffix_def HasSuffix_def)
  have n: "''blog'' = Name blog_config"
    by (simp add: blog_config_def)
  show ?thesis
    using preview_names_follow_revision [OF run example_inputs(1,2) h n example_inputs(7,8)]
      run example_inputs(1,2)
    by (simp add: blog_config_def)
qed



subsection \<open>The preview map of the saved record\<close>

text \<open>
  C6. A preview run for revision hash \<open>h\<close> that returns, and whose write of the
  record does not fail, leaves in \<open>sidekick.yml\<close> a record whose preview map has the
  entry for \<open>h\<close> and no other key, whatever the map of the loaded record held: the
  map is replaced, not merged.
\<close>

theorem preview_map_is_replaced:
  assumes "PreviewCmd env w = (Returned, w')"
    and "LoadAppConfig w = Some appConfig"
    and "git_hash_output env = Some hashOutput"
    and "h = TrimSuffix hashOutput [newline]"
    and "\<not> marshal_err env (AppYaml (preview_record env appConfig h))"
    and "\<not> write_err env ''sidekick.yml''"
  shows "\<exists>f c. files w' ''sidekick.yml'' = Some f
           \<and> content f = AppYaml c
           \<and> PreviewEnvs c = [h \<mapsto> previewEnvConfig env appConfig h]
           \<and> dom (PreviewEnvs c) = {h}"
proof -
  from assms(1) have ret: "fst (PreviewCmd env w) = Returned" and w': "w' = snd (PreviewCmd env w)"
    by simp_all
  have "files w' ''sidekick.yml'' =
          Some \<lparr>content = AppYaml (preview_record env appConfig h),
                mode = (case files w ''sidekick.yml'' of
                          None \<Rightarrow> perm_0644 AND NOT (umask env)
                        | Some f \<Rightarrow> mode f)\<rparr>"
    unfolding w' PreviewCmd_Returned_files(1) [OF ret assms(2,3)]
    using assms(4,5,6) by (simp add: marshal_dropping_error_def)
  moreover have "PreviewEnvs (preview_record env appConfig h) = [h \<mapsto> previewEnvConfig env appConfig h]"
    by (simp add: preview_record_def)
  ultimately show ?thesis
    by simp
qed

theorem preview_map_is_replaced_witness:
  "PreviewCmd example_env launched_world = (Returned, snd (PreviewCmd example_env launched_world))
   \<and> LoadAppConfig launched_world = Some blog_config
   \<and> dom (PreviewEnvs blog_config) = {''abc123''}
   \<and> git_hash_output example_env = Some (''def456'' @ [newline])
   \<and> (\<exists>f c. files (snd (PreviewCmd example_env launched_world)) ''sidekick.yml'' = Some f
           \<and> content f = AppYaml c
           \<and> dom (PreviewEnvs c) = {''def456''}
           \<and> PreviewEnvs c ''abc123'' = None)"
proof -
  have run: "PreviewCmd example_env launched_world
               = (Returned, snd (PreviewCmd example_env launched_world))"
    by (simp add: prod_eq_iff example_preview_outcome)
  have h: "''def456'' = TrimSuffix (''def456'' @ [newline]) [newline]"
    by (simp add: TrimSuffix_def HasSuffix_def)
  have old: "dom (PreviewEnvs blog_config) = {''abc123''}"
    by (simp add: blog_config_def)
  from preview_map_is_replaced [OF run example_inputs(1,2) h example_inputs(7,8)]
  obtain f c where f: "files (snd (PreviewCmd example_env launched_world)) ''sidekick.yml'' = Some f"
    and c: "content f = AppYaml c"
    and m: "PreviewEnvs c = [''def456'' \<mapsto> previewEnvConfig example_env blog_config ''def456'']"
    and d: "dom (PreviewEnvs c) = {''def456''}"
    by (elim exE conjE)
  have "PreviewEnvs c ''abc123'' = None"
    unfolding m by simp
  with f c d have "\<exists>f c. files (snd (PreviewCmd example_env launched_world)) ''sidekick.yml'' = Some f
           \<and> content f = AppYaml c
           \<and> dom (PreviewEnvs c) = {''def456''}
           \<and> PreviewEnvs c ''abc123'' = None"
    by (intro exI conjI)
  with run old example_inputs(1,2) show ?thesis
    by (intro conjI)
qed

subsection \<open>The routing labels\<close>

text \<open>
  C3. Every compose document that a run of either command writes, whether the run goes
  on to succeed or not, has one service, and that service carries exactly six labels in
  this order: routing enabled; the host rule on the resolved hostname (for launch the
  domain the prompt returned, for preview \<open>h.<url of the record>\<close>); the load
  balancer port on the declared port (for launch the port the prompt returned, for
  preview the port of the record); TLS enabled; the certificate resolver
  \<open>default\<close>; the network \<open>sidekick\<close>.
\<close>

theorem service_descriptor_has_six_routing_labels:
  "(EvWriteFile name (ComposeYaml d) \<in> set (calls w (snd (launchCmd env w))) \<longrightarrow>
      (\<exists>sa dp svc.
          viper_values env ''serverAddress'' = Some sa
        \<and> dockerfile_port (Dockerfile env) = Some dp
        \<and> Services d = [Show (input_name env) [] \<mapsto> svc]
        \<and> svc_Labels svc =
            [''traefik.enable=true'',
             ''traefik.http.routers.'' @ Show (input_name env) [] @ ''.rule=Host('' @ backquote
                @ launch_domain env (Show (input_name env) []) sa @ backquote @ '')'',
             ''traefik.http.services.'' @ Show (input_name env) [] @ ''.loadbalancer.server.port=''
                @ Show (input_port env) dp,
             ''traefik.http.routers.'' @ Show (input_name env) [] @ ''.tls=true'',
             ''traefik.http.routers.'' @ Show (input_name env) [] @ ''.tls.certresolver=default'',
             ''traefik.docker.network=sidekick'']
        \<and> length (svc_Labels svc) = 6))
   \<and> (EvWriteFile name (ComposeYaml d) \<in> set (calls w (snd (PreviewCmd env w))) \<longrightarrow>
      (\<exists>c ho svc.
          LoadAppConfig w = Some c
        \<and> git_hash_output env = Some ho
        \<and> Services d = [Name c @ ''-'' @ TrimSuffix ho [newline] \<mapsto> svc]
        \<and> svc_Labels svc =
            [''traefik.enable=true'',
             ''traefik.http.routers.'' @ Name c @ ''-'' @ TrimSuffix ho [newline] @ ''.rule=Host(''
                @ backquote @ TrimSuffix ho [newline] @ ''.'' @ Url c @ backquote @ '')'',
             ''traefik.http.services.'' @ Name c @ ''-'' @ TrimSuffix ho [newline]
                @ ''.loadbalancer.server.port='' @ Sprint_port env (Port c),
             ''traefik.http.routers.'' @ Name c @ ''-'' @ TrimSuffix ho [newline] @ ''.tls=true'',
             ''traefik.http.routers.'' @ Name c @ ''-'' @ TrimSuffix ho [newline]
                @ ''.tls.certresolver=default'',
             ''traefik.docker.network=sidekick'']
        \<and> length (svc_Labels svc) = 6))"
proof (intro conjI impI)
  assume "EvWriteFile name (ComposeYaml d) \<in> set (calls w (snd (launchCmd env w)))"
  then obtain sa du dp where
      "viper_values env ''serverAddress'' = Some sa"
      "dockerfile_port (Dockerfile env) = Some dp"
      "d = launch_compose (Show (input_name env) [])
           (launch_service (du @ ''/'' @ Show (input_name env) []) (Show (input_name env) [])
              (launch_domain env (Show (input_name env) []) sa) (Show (input_port env) dp))"
    by (rule launchCmd_compose_written)
  then show "\<exists>sa dp svc.
          viper_values env ''serverAddress'' = Some sa
        \<and> dockerfile_port (Dockerfile env) = Some dp
        \<and> Services d = [Show (input_name env) [] \<mapsto> svc]
        \<and> svc_Labels svc =
            [''traefik.enable=true'',
             ''traefik.http.routers.'' @ Show (input_name env) [] @ ''.rule=Host('' @ backquote
                @ launch_domain env (Show (input_name env) []) sa @ backquote @ '')'',
             ''traefik.http.services.'' @ Show (input_name env) [] @ ''.loadbalancer.server.port=''
                @ Show (input_port env) dp,
             ''traefik.http.routers.'' @ Show (input_name env) [] @ ''.tls=true'',
             ''traefik.http.routers.'' @ Show (input_name env) [] @ ''.tls.certresolver=default'',
             ''traefik.docker.network=sidekick'']
        \<and> length (svc_Labels svc) = 6"
    by (rule_tac x = sa in exI, rule_tac x = dp in exI,
        rule_tac x = "launch_service (du @ ''/'' @ Show (input_name env) []) (Show (input_name env) [])
              (launch_domain env (Show (input_name env) []) sa) (Show (input_port env) dp)" in exI)
      (simp add: launch_compose_def launch_service_fields)
next
  assume "EvWriteFile name (ComposeYaml d) \<in> set (calls w (snd (PreviewCmd env w)))"
  then obtain c ho envs where
      "LoadAppConfig w = Some c"
      "git_hash_output env = Some ho"
      "d = preview_compose (preview_serviceName c (TrimSuffix ho [newline]))
           (preview_service env c (TrimSuffix ho [newline]) envs)"
    by (rule PreviewCmd_compose_written)
  then show "\<exists>c ho svc.
          LoadAppConfig w = Some c
        \<and> git_hash_output env = Some ho
        \<and> Services d = [Name c @ ''-'' @ TrimSuffix ho [newline] \<mapsto> svc]
        \<and> svc_Labels svc =
            [''traefik.enable=true'',
             ''traefik.http.routers.'' @ Name c @ ''-'' @ TrimSuffix ho [newline] @ ''.rule=Host(''
                @ backquote @ TrimSuffix ho [newline] @ ''.'' @ Url c @ backquote @ '')'',
             ''traefik.http.services.'' @ Name c @ ''-'' @ TrimSuffix ho [newline]
                @ ''.loadbalancer.server.port='' @ Sprint_port env (Port c),
             ''traefik.http.routers.'' @ Name c @ ''-'' @ TrimSuffix ho [newline] @ ''.tls=true'',
             ''traefik.http.routers.'' @ Name c @ ''-'' @ TrimSuffix ho [newline]
                @ ''.tls.certresolver=default'',
             ''traefik.docker.network=sidekick'']
        \<and> length (svc_Labels svc) = 6"
    by (rule_tac x = c in exI, rule_tac x = ho in exI,
        rule_tac x = "preview_service env c (TrimSuffix ho [newline]) envs" in exI)
      (simp add: preview_compose_def preview_serviceName_def preview_service_fields)
qed

theorem service_descriptor_has_six_routing_labels_witness:
  "EvWriteFile ''docker-compose.yaml''
      (ComposeYaml (launch_compose ''blog''
         (launch_service ''alice/blog'' ''blog'' ''blog.203.0.113.7.sslip.io'' ''8080'')))
     \<in> set (calls fresh_world (snd (launchCmd example_env fresh_world)))
   \<and> (\<exists>svc. Services (launch_compose ''blog''
                (launch_service ''alice/blog'' ''blog'' ''blog.203.0.113.7.sslip.io'' ''8080''))
              = [''blog'' \<mapsto> svc]
          \<and> svc_Labels svc =
              [''traefik.enable=true'',
               ''traefik.http.routers.blog.rule=Host('' @ backquote @ ''blog.203.0.113.7.sslip.io''
                  @ backquote @ '')'',
               ''traefik.http.services.blog.loadbalancer.server.port=8080'',
               ''traefik.http.routers.blog.tls=true'',
               ''traefik.http.routers.blog.tls.certresolver=default'',
               ''traefik.docker.network=sidekick''])
   \<and> EvWriteFile ''docker-compose.yaml''
      (ComposeYaml (preview_compose ''blog-def456''
         (preview_service example_env blog_config ''def456'' [])))
     \<in> set (calls launched_world (snd (PreviewCmd example_env launched_world)))
   \<and> (\<exists>svc. Services (preview_compose ''blog-def456''
                (preview_service example_env blog_config ''def456'' []))
              = [''blog-def456'' \<mapsto> svc]
          \<and> svc_Labels svc =
              [''traefik.enable=true'',
               ''traefik.http.routers.blog-def456.rule=Host('' @ backquote
                  @ ''def456.blog.example.org'' @ backquote @ '')'',
               ''traefik.http.services.blog-def456.loadbalancer.server.port=8080'',
               ''traefik.http.routers.blog-def456.tls=true'',
               ''traefik.http.routers.blog-def456.tls.certresolver=default'',
               ''traefik.docker.network=sidekick''])"
proof -
  let ?dl = "launch_compose ''blog''
         (launch_service ''alice/blog'' ''blog'' ''blog.203.0.113.7.sslip.io'' ''8080'')"
  let ?dp = "preview_compose ''blog-def456'' (preview_service example_env blog_config ''def456'' [])"
  have l: "EvWriteFile ''docker-compose.yaml'' (ComposeYaml ?dl)
             \<in> set (calls fresh_world (snd (launchCmd example_env fresh_world)))"
    by (simp add: example_launch_calls)
  have p: "EvWriteFile ''docker-compose.yaml'' (ComposeYaml ?dp)
             \<in> set (calls launched_world (snd (PreviewCmd example_env launched_world)))"
    by (simp add: example_preview_calls)
  note six = service_descriptor_has_six_routing_labels
  from six [of "''docker-compose.yaml''" ?dl fresh_world example_env] l
  have "\<exists>svc. Services ?dl = [''blog'' \<mapsto> svc]
          \<and> svc_Labels svc =
              [''traefik.enable=true'',
               ''traefik.http.routers.blog.rule=Host('' @ backquote @ ''blog.203.0.113.7.sslip.io''
                  @ backquote @ '')'',
               ''traefik.http.services.blog.loadbalancer.server.port=8080'',
               ''traefik.http.routers.blog.tls=true'',
               ''traefik.http.routers.blog.tls.certresolver=default'',
               ''traefik.docker.network=sidekick'']"
    by (auto simp add: example_inputs launch_domain_def launch_default_domain_def Show_def)
  moreover
  from six [of "''docker-compose.yaml''" ?dp launched_world example_env] p
  have "\<exists>svc. Services ?dp = [''blog-def456'' \<mapsto> svc]
          \<and> svc_Labels svc =
              [''traefik.enable=true'',
               ''traefik.http.routers.blog-def456.rule=Host('' @ backquote
                  @ ''def456.blog.example.org'' @ backquote @ '')'',
               ''traefik.http.services.blog-def456.loadbalancer.server.port=8080'',
               ''traefik.http.routers.blog-def456.tls=true'',
               ''traefik.http.routers.blog-def456.tls.certresolver=default'',
               ''traefik.docker.network=sidekick'']"
    by (auto simp add: example_inputs TrimSuffix_def HasSuffix_def blog_config_def example_env_def)
  ultimately show ?thesis
    using l p by (intro conjI)
qed



subsection \<open>Transient files after a failed run\<close>

text \<open>
  Where the deferred removal does its work: a launch run never ends in \<open>os.Exit\<close>
  once the compose document is written, so the document is gone after every launch run
  that started without one; and so it is after every preview run that does not end in
  \<open>os.Exit\<close>.
\<close>

lemma run_deferred_other_file:
  "m \<noteq> clean n \<Longrightarrow> files (run_deferred out [n] w) m = files w m"
  by (cases out) simp_all

lemma run_deferred_removed:
  "\<not> exited out \<Longrightarrow>
     files (run_deferred out [''docker-compose.yaml''] w) ''docker-compose.yaml'' = None"
  by (cases out) simp_all

lemma launch_deploy_never_exits:
  "\<not> exited (fst (launch_deploy env sa du an ad w))"
  by (simp add: launch_deploy_def Let_def case_prod_beta)

lemma launch_removes_compose_document:
  assumes "files w ''docker-compose.yaml'' = None"
  shows "files (snd (launchCmd env w)) ''docker-compose.yaml'' = None"
  using assms
  by (simp add: launchCmd_def Let_def case_prod_beta run_deferred_removed
        launch_deploy_never_exits split: option.splits)

lemma preview_deploy_keeps_compose:
  "files (snd (preview_deploy env c h sa w)) ''docker-compose.yaml''
     = files w ''docker-compose.yaml''"
  by (simp add: preview_deploy_def Let_def case_prod_beta)

lemma preview_descriptor_removes_compose:
  assumes "files w ''docker-compose.yaml'' = None"
    and "\<not> exited (fst (preview_descriptor env c h sa envs w))"
  shows "files (snd (preview_descriptor env c h sa envs w)) ''docker-compose.yaml'' = None"
  using assms
  by (simp add: preview_descriptor_def Let_def case_prod_beta run_deferred_removed
        split: if_splits)

lemma HandleEnvFile_keeps_compose:
  "files (snd (HandleEnvFile env n w)) ''docker-compose.yaml'' = files w ''docker-compose.yaml''"
  by (simp add: HandleEnvFile_def Let_def split: option.splits)

lemma preview_removes_compose_unless_exit:
  assumes "files w ''docker-compose.yaml'' = None"
    and "\<not> exited (fst (PreviewCmd env w))"
  shows "files (snd (PreviewCmd env w)) ''docker-compose.yaml'' = None"
  using assms
  by (auto simp add: PreviewCmd_def Let_def case_prod_beta run_deferred_other_file
        HandleEnvFile_keeps_compose
        split: if_splits option.splits intro!: preview_descriptor_removes_compose)

text \<open>
  C5. The claim that the compose document and the encrypted file are gone after every
  run fails where the run ends in \<open>os.Exit\<close>: the deferred removals do not run.
  When the image build of a preview fails (\<open>os.Exit(1)\<close>, line 146),
  \<open>docker-compose.yaml\<close>, which was absent before the run, is there after it; with
  an environment file configured, \<open>encrypted.env\<close> is there too.
\<close>

theorem preview_build_failure_leaves_artifacts:
  "fst (PreviewCmd build_fails_env launched_world) = Exited 1
   \<and> files launched_world ''docker-compose.yaml'' = None
   \<and> files (snd (PreviewCmd build_fails_env launched_world)) ''docker-compose.yaml''
       = Some \<lparr>content = ComposeYaml (preview_compose ''blog-def456''
                   (preview_service build_fails_env blog_config ''def456'' [])),
                mode = 0x1A4\<rparr>
   \<and> fst (PreviewCmd secret_build_fails_env secret_world) = Exited 1
   \<and> files secret_world ''encrypted.env'' = None
   \<and> files (snd (PreviewCmd secret_build_fails_env secret_world)) ''encrypted.env''
       = Some \<lparr>content = Raw ''ciphertext'', mode = 0x1A4\<rparr>
   \<and> files (snd (PreviewCmd secret_build_fails_env secret_world)) ''docker-compose.yaml''
       = Some \<lparr>content = ComposeYaml (preview_compose ''blog-def456''
                   (preview_service secret_build_fails_env (blog_config\<lparr>Env_File := ''.env''\<rparr>)
                      ''def456'' [''TOKEN=${TOKEN}''])),
                mode = 0x1A4\<rparr>"
  by (simp add: run_defs build_fails_env_def secret_build_fails_env_def example_env_def
        launched_world_def secret_world_def blog_config_def perm_0644_def)

subsection \<open>Empty answers at the prompts of launch\<close>

text \<open>
  C7. When the user submits an empty name, or an empty port, the launch run ends in
  \<open>os.Exit(0)\<close>: the exit status is zero. Up to then it has run the ssh key script
  and nothing else: no login, no write of the compose document or of the record.
\<close>

theorem launch_empty_input_exits_with_status_zero:
  "Show (input_name empty_name_env) [] = []
   \<and> launchCmd empty_name_env fresh_world
       = (Exited 0, fresh_world\<lparr>trace := [EvScript SshKeysScript]\<rparr>)
   \<and> exit_status (fst (launchCmd empty_name_env fresh_world)) = 0
   \<and> Show (input_port empty_port_env) ''E 80'' = []
   \<and> launchCmd empty_port_env fresh_world
       = (Exited 0, fresh_world\<lparr>trace := [EvScript SshKeysScript]\<rparr>)
   \<and> exit_status (fst (launchCmd empty_port_env fresh_world)) = 0"
  by (simp add: run_defs record_call_def empty_name_env_def empty_port_env_def example_env_def
        fresh_world_def)

subsection \<open>Creating the remote directory\<close>

text \<open>
  C8. Launch creates its directory with \<open>mkdir\<close>, preview with \<open>mkdir -p\<close>. With
  the directory \<open>blog\<close> already on the host, the launch run panics on the error of
  \<open>mkdir blog\<close>; with the preview directory already there, the preview run returns.
\<close>

theorem launch_mkdir_fails_on_existing_directory:
  "remote_dirs launched_world = [''blog'']
   \<and> fst (launchCmd example_env launched_world) = Panicked (RemoteFailure ''mkdir blog'')
   \<and> remote_dirs redeployed_world = [''blog/preview/def456'', ''blog'']
   \<and> fst (PreviewCmd example_env redeployed_world) = Returned"
  by (simp add: run_defs example_env_def launched_world_def redeployed_world_def blog_config_def)


subsection \<open>The default hostname of a launch\<close>

text \<open>
  C2, as stated. The claim that the hostname is \<open>name.serverAddress\<close> when the user does
  not override it is false: for the name \<open>blog\<close> and the server \<open>203.0.113.7\<close> the
  run saves the URL \<open>blog.203.0.113.7.sslip.io\<close>.
\<close>

theorem launch_hostname_is_not_name_dot_server:
  "Show (input_name example_env) [] = ''blog''
   \<and> viper_values example_env ''serverAddress'' = Some ''203.0.113.7''
   \<and> input_domain example_env = None
   \<and> fst (launchCmd example_env fresh_world) = Returned
   \<and> launch_saved_url (snd (launchCmd example_env fresh_world)) = Some ''blog.203.0.113.7.sslip.io''
   \<and> launch_saved_url (snd (launchCmd example_env fresh_world)) \<noteq> Some (''blog'' @ ''.'' @ ''203.0.113.7'')"
  by (simp add: launch_saved_url_def run_defs example_env_def fresh_world_def)

text \<open>
  C2, as amended. In a launch run that returns, the name passed the check (it is not
  empty and has no space), and when the user confirms the offered domain the resolved
  hostname is the name, a dot, the server address and \<open>.sslip.io\<close>: this is the
  host of the rule in the compose document the run wrote, and the URL of the record it
  saved (when the write of the record does not fail).
\<close>

theorem launch_default_hostname_is_sslip:
  assumes "launchCmd env w = (Returned, w')"
    and "input_domain env = None"
    and "viper_values env ''serverAddress'' = Some serverAddress"
    and "appName = Show (input_name env) []"
  shows "appName \<noteq> [] \<and> \<not> Contains appName '' ''
     \<and> launch_domain env appName serverAddress = appName @ ''.'' @ serverAddress @ ''.sslip.io''
     \<and> (\<exists>d svc. EvWriteFile ''docker-compose.yaml'' (ComposeYaml d) \<in> set (calls w w')
           \<and> Services d = [appName \<mapsto> svc]
           \<and> svc_Labels svc ! 1 =
               ''traefik.http.routers.'' @ appName @ ''.rule=Host('' @ backquote
                 @ appName @ ''.'' @ serverAddress @ ''.sslip.io'' @ backquote @ '')'')
     \<and> (\<not> write_err env ''sidekick.yml'' \<and> (\<forall>doc. \<not> marshal_err env doc) \<longrightarrow>
           launch_saved_url w' = Some (appName @ ''.'' @ serverAddress @ ''.sslip.io''))"
proof -
  from assms(1) have ret: "fst (launchCmd env w) = Returned" and w': "w' = snd (launchCmd env w)"
    by simp_all
  from launchCmd_Returned_inputs [OF ret] assms(3,4) obtain du dp where
      du: "viper_values env ''dockerUsername'' = Some du"
    and dp: "dockerfile_port (Dockerfile env) = Some dp"
    and name: "appName \<noteq> []" "\<not> Contains appName '' ''"
    by auto
  have dom: "launch_domain env appName serverAddress = appName @ ''.'' @ serverAddress @ ''.sslip.io''"
    using assms(2) by (simp add: launch_domain_def launch_default_domain_def Show_def)
  let ?svc = "launch_service (du @ ''/'' @ appName) appName
                (appName @ ''.'' @ serverAddress @ ''.sslip.io'') (Show (input_port env) dp)"
  let ?d = "launch_compose appName ?svc"
  have 1: "EvWriteFile ''docker-compose.yaml'' (ComposeYaml ?d) \<in> set (calls w w')"
    unfolding w' launchCmd_Returned_calls [OF ret assms(3) du dp] assms(4) [symmetric] dom
    by simp
  have 2: "Services ?d = [appName \<mapsto> ?svc]"
    by (simp add: launch_compose_def)
  have 3: "svc_Labels ?svc ! 1 =
               ''traefik.http.routers.'' @ appName @ ''.rule=Host('' @ backquote
                 @ appName @ ''.'' @ serverAddress @ ''.sslip.io'' @ backquote @ '')''"
    by (simp add: launch_service_fields)
  have 4: "launch_saved_url w' = Some (appName @ ''.'' @ serverAddress @ ''.sslip.io'')"
    if "\<not> write_err env ''sidekick.yml''" "\<forall>doc. \<not> marshal_err env doc"
    unfolding w' launch_saved_url_def launchCmd_Returned_files(1) [OF ret assms(3) du]
      assms(4) [symmetric] dom
    using that by (simp add: marshal_dropping_error_def launch_record_def)
  have 5: "\<exists>d svc. EvWriteFile ''docker-compose.yaml'' (ComposeYaml d) \<in> set (calls w w')
           \<and> Services d = [appName \<mapsto> svc]
           \<and> svc_Labels svc ! 1 =
               ''traefik.http.routers.'' @ appName @ ''.rule=Host('' @ backquote
                 @ appName @ ''.'' @ serverAddress @ ''.sslip.io'' @ backquote @ '')''"
    using 1 2 3 by (intro exI conjI)
  from name dom 5 4 show ?thesis
    by (intro conjI impI) (simp_all only: simp_thms)
qed

theorem launch_default_hostname_is_sslip_witness:
  "launchCmd example_env fresh_world = (Returned, snd (launchCmd example_env fresh_world))
   \<and> input_domain example_env = None
   \<and> viper_values example_env ''serverAddress'' = Some ''203.0.113.7''
   \<and> ''blog'' = Show (input_name example_env) []
   \<and> launch_domain example_env ''blog'' ''203.0.113.7'' = ''blog.203.0.113.7.sslip.io''
   \<and> launch_saved_url (snd (launchCmd example_env fresh_world)) = Some ''blog.203.0.113.7.sslip.io''"
proof -
  have run: "launchCmd example_env fresh_world = (Returned, snd (launchCmd example_env fresh_world))"
    by (simp add: prod_eq_iff example_launch_outcome)
  have n: "''blog'' = Show (input_name example_env) []"
    by (simp add: example_inputs Show_def)
  note r = launch_default_hostname_is_sslip [OF run example_inputs(9,4) n]
  from r have d: "launch_domain example_env ''blog'' ''203.0.113.7'' = ''blog.203.0.113.7.sslip.io''"
    by simp
  from r example_inputs(7,8)
  have u: "launch_saved_url (snd (launchCmd example_env fresh_world)) = Some ''blog.203.0.113.7.sslip.io''"
    by simp
  from run example_inputs(9,4) n d u show ?thesis
    by (intro conjI)
qed



subsection \<open>The order of the calls\<close>

text \<open>
  C4, as stated. The claim that the compose document is never written before the remote session is
  acquired and the image is built is false. In the successful launch run the write of
  \<open>docker-compose.yaml\<close> comes before the login and before the image build; in the
  successful preview run it comes before the image build.
\<close>

theorem descriptor_written_before_login_and_build:
  "fst (launchCmd example_env fresh_world) = Returned
   \<and> occurs_before is_compose_write is_login
        (calls fresh_world (snd (launchCmd example_env fresh_world)))
   \<and> occurs_before is_compose_write is_image_build
        (calls fresh_world (snd (launchCmd example_env fresh_world)))
   \<and> fst (PreviewCmd example_env launched_world) = Returned
   \<and> occurs_before is_compose_write is_image_build
        (calls launched_world (snd (PreviewCmd example_env launched_world)))"
  by (simp add: example_launch_outcome example_preview_outcome example_launch_calls
        example_preview_calls occurs_before_def)

text \<open>
  C4, as amended. A run that returns has made its calls in one fixed order. Launch: the
  ssh key script, the write of the compose document, the login, the image build and
  push, \<open>mkdir\<close> of the remote directory, the transfer of the compose document, the
  remote activation, the write of the record, and last the deferred removal of the
  compose document. Preview: the git checks, the login, the encryption of the
  environment file when one is configured, the write of the compose document, the image
  build, its transfer, load and cleanup on the host, \<open>mkdir -p\<close> of the remote
  directory, the transfer of the compose document (and of the encrypted file), the
  remote activation, the write of the record, and last the two deferred removals.
\<close>

theorem pipeline_call_order:
  "(launchCmd env w = (Returned, w') \<longrightarrow>
      (\<exists>sa doc saved.
          viper_values env ''serverAddress'' = Some sa
        \<and> calls w w' =
            [EvScript SshKeysScript,
             EvWriteFile ''docker-compose.yaml'' doc,
             EvLogin,
             EvScript DockerHandleScript,
             EvRunCommand (''mkdir '' @ Show (input_name env) []),
             EvRsync ''docker-compose.yaml'' (''root@'' @ sa @ '':./'' @ Show (input_name env) []),
             EvRunCommand (''cd '' @ Show (input_name env) [] @ '' && docker compose -p sidekick up -d''),
             EvWriteFile ''sidekick.yml'' saved,
             EvRemove ''docker-compose.yaml'']))
   \<and> (PreviewCmd env w = (Returned, w') \<longrightarrow>
      (\<exists>c ho sa doc saved.
          LoadAppConfig w = Some c
        \<and> git_hash_output env = Some ho
        \<and> viper_values env ''serverAddress'' = Some sa
        \<and> calls w w' =
            [EvScript CheckGitTreeScript, EvScript GitShortHash, EvLogin] @
            (if Env_File c \<noteq> [] then [EvHandleEnvFile (Env_File c)] else []) @
            [EvWriteFile ''docker-compose.yaml'' doc,
             EvScript DockerBuildAndSaveScript,
             EvScript ImageMoveScript,
             EvRunCommand (''cd '' @ Name c @ '' && docker load -i '' @ Name c @ ''-''
                @ TrimSuffix ho [newline] @ ''.tar''),
             EvRunCommand (''cd '' @ Name c @ '' && rm '' @ Name c @ ''-''
                @ TrimSuffix ho [newline] @ ''.tar''),
             EvRunCommand (''mkdir -p '' @ Name c @ ''/preview/'' @ TrimSuffix ho [newline]),
             EvRsync ''docker-compose.yaml''
               (''sidekick@'' @ sa @ '':./'' @ Name c @ ''/preview/'' @ TrimSuffix ho [newline])] @
            (if Env_File c \<noteq> []
             then [EvRsync ''encrypted.env''
                     (''sidekick@'' @ sa @ '':./'' @ Name c @ ''/preview/'' @ TrimSuffix ho [newline])]
             else []) @
            [EvRunCommand (preview_up c (TrimSuffix ho [newline])),
             EvWriteFile ''sidekick.yml'' saved,
             EvRemove ''docker-compose.yaml'',
             EvRemove ''encrypted.env'']))"
proof (intro conjI impI)
  assume "launchCmd env w = (Returned, w')"
  then have ret: "fst (launchCmd env w) = Returned" and w': "w' = snd (launchCmd env w)"
    by simp_all
  from launchCmd_Returned_inputs [OF ret] obtain sa du dp where
      sa: "viper_values env ''serverAddress'' = Some sa"
    and du: "viper_values env ''dockerUsername'' = Some du"
    and dp: "dockerfile_port (Dockerfile env) = Some dp"
    by blast
  show "\<exists>sa doc saved.
          viper_values env ''serverAddress'' = Some sa
        \<and> calls w w' =
            [EvScript SshKeysScript,
             EvWriteFile ''docker-compose.yaml'' doc,
             EvLogin,
             EvScript DockerHandleScript,
             EvRunCommand (''mkdir '' @ Show (input_name env) []),
             EvRsync ''docker-compose.yaml'' (''root@'' @ sa @ '':./'' @ Show (input_name env) []),
             EvRunCommand (''cd '' @ Show (input_name env) [] @ '' && docker compose -p sidekick up -d''),
             EvWriteFile ''sidekick.yml'' saved,
             EvRemove ''docker-compose.yaml'']"
    unfolding w' launchCmd_Returned_calls [OF ret sa du dp]
    using sa by (intro exI conjI) (rule sa, rule refl)
next
  assume "PreviewCmd env w = (Returned, w')"
  then have ret: "fst (PreviewCmd env w) = Returned" and w': "w' = snd (PreviewCmd env w)"
    by simp_all
  from PreviewCmd_Returned_inputs [OF ret] obtain c ho sa where
      c: "LoadAppConfig w = Some c"
    and ho: "git_hash_output env = Some ho"
    and sa: "viper_values env ''serverAddress'' = Some sa"
    by blast
  show "\<exists>c ho sa doc saved.
          LoadAppConfig w = Some c
        \<and> git_hash_output env = Some ho
        \<and> viper_values env ''serverAddress'' = Some sa
        \<and> calls w w' =
            [EvScript CheckGitTreeScript, EvScript GitShortHash, EvLogin] @
            (if Env_File c \<noteq> [] then [EvHandleEnvFile (Env_File c)] else []) @
            [EvWriteFile ''docker-compose.yaml'' doc,
             EvScript DockerBuildAndSaveScript,
             EvScript ImageMoveScript,
             EvRunCommand (''cd '' @ Name c @ '' && docker load -i '' @ Name c @ ''-''
                @ TrimSuffix ho [newline] @ ''.tar''),
             EvRunCommand (''cd '' @ Name c @ '' && rm '' @ Name c @ ''-''
                @ TrimSuffix ho [newline] @ ''.tar''),
             EvRunCommand (''mkdir -p '' @ Name c @ ''/preview/'' @ TrimSuffix ho [newline]),
             EvRsync ''docker-compose.yaml''
               (''sidekick@'' @ sa @ '':./'' @ Name c @ ''/preview/'' @ TrimSuffix ho [newline])] @
            (if Env_File c \<noteq> []
             then [EvRsync ''encrypted.env''
                     (''sidekick@'' @ sa @ '':./'' @ Name c @ ''/preview/'' @ TrimSuffix ho [newline])]
             else []) @
            [EvRunCommand (preview_up c (TrimSuffix ho [newline])),
             EvWriteFile ''sidekick.yml'' saved,
             EvRemove ''docker-compose.yaml'',
             EvRemove ''encrypted.env'']"
    unfolding w' PreviewCmd_Returned_calls [OF ret c ho sa] preview_dir_def
    by (intro exI conjI) (rule c, rule ho, rule sa, rule refl)
qed

theorem pipeline_call_order_witness:
  "launchCmd example_env fresh_world = (Returned, snd (launchCmd example_env fresh_world))
   \<and> map is_compose_write (calls fresh_world (snd (launchCmd example_env fresh_world)))
       = [False, True, False, False, False, False, False, False, False]
   \<and> map is_login (calls fresh_world (snd (launchCmd example_env fresh_world)))
       = [False, False, True, False, False, False, False, False, False]
   \<and> PreviewCmd example_env launched_world = (Returned, snd (PreviewCmd example_env launched_world))
   \<and> map is_login (calls launched_world (snd (PreviewCmd example_env launched_world)))
       = [False, False, True, False, False, False, False, False, False, False, False, False,
          False, False]
   \<and> map is_compose_write (calls launched_world (snd (PreviewCmd example_env launched_world)))
       = [False, False, False, True, False, False, False, False, False, False, False, False,
          False, False]"
proof -
  have runl: "launchCmd example_env fresh_world = (Returned, snd (launchCmd example_env fresh_world))"
    by (simp add: prod_eq_iff example_launch_outcome)
  have runp: "PreviewCmd example_env launched_world
                = (Returned, snd (PreviewCmd example_env launched_world))"
    by (simp add: prod_eq_iff example_preview_outcome)
  note order = pipeline_call_order [of example_env]
  from order [of fresh_world "snd (launchCmd example_env fresh_world)"] runl
  obtain sa doc saved where
    "calls fresh_world (snd (launchCmd example_env fresh_world)) =
            [EvScript SshKeysScript,
             EvWriteFile ''docker-compose.yaml'' doc,
             EvLogin,
             EvScript DockerHandleScript,
             EvRunCommand (''mkdir '' @ Show (input_name example_env) []),
             EvRsync ''docker-compose.yaml''
               (''root@'' @ sa @ '':./'' @ Show (input_name example_env) []),
             EvRunCommand (''cd '' @ Show (input_name example_env) []
               @ '' && docker compose -p sidekick up -d''),
             EvWriteFile ''sidekick.yml'' saved,
             EvRemove ''docker-compose.yaml'']"
    by blast
  then have l: "map is_compose_write (calls fresh_world (snd (launchCmd example_env fresh_world)))
       = [False, True, False, False, False, False, False, False, False]"
    "map is_login (calls fresh_world (snd (launchCmd example_env fresh_world)))
       = [False, False, True, False, False, False, False, False, False]"
    by simp_all
  from order [of launched_world "snd (PreviewCmd example_env launched_world)"] runp
    example_inputs(1)
  obtain ho sa doc saved where
    "calls launched_world (snd (PreviewCmd example_env launched_world)) =
            [EvScript CheckGitTreeScript, EvScript GitShortHash, EvLogin] @
            (if Env_File blog_config \<noteq> [] then [EvHandleEnvFile (Env_File blog_config)] else []) @
            [EvWriteFile ''docker-compose.yaml'' doc,
             EvScript DockerBuildAndSaveScript,
             EvScript ImageMoveScript,
             EvRunCommand (''cd '' @ Name blog_config @ '' && docker load -i '' @ Name blog_config @ ''-''
                @ TrimSuffix ho [newline] @ ''.tar''),
             EvRunCommand (''cd '' @ Name blog_config @ '' && rm '' @ Name blog_config @ ''-''
                @ TrimSuffix ho [newline] @ ''.tar''),
             EvRunCommand (''mkdir -p '' @ Name blog_config @ ''/preview/'' @ TrimSuffix ho [newline]),
             EvRsync ''docker-compose.yaml''
               (''sidekick@'' @ sa @ '':./'' @ Name blog_config @ ''/preview/'' @ TrimSuffix ho [newline])] @
            (if Env_File blog_config \<noteq> []
             then [EvRsync ''encrypted.env''
                     (''sidekick@'' @ sa @ '':./'' @ Name blog_config @ ''/preview/'' @ TrimSuffix ho [newline])]
             else []) @
            [EvRunCommand (preview_up blog_config (TrimSuffix ho [newline])),
             EvWriteFile ''sidekick.yml'' saved,
             EvRemove ''docker-compose.yaml'',
             EvRemove ''encrypted.env'']"
    by auto
  then have p: "map is_login (calls launched_world (snd (PreviewCmd example_env launched_world)))
       = [False, False, True, False, False, False, False, False, False, False, False, False,
          False, False]"
    "map is_compose_write (calls launched_world (snd (PreviewCmd example_env launched_world)))
       = [False, False, False, True, False, False, False, False, False, False, False, False,
          False, False]"
    by (simp_all add: blog_config_def)
  from runl runp l p show ?thesis
    by (intro conjI)
qed



subsection \<open>Writing the record\<close>

text \<open>
  C9, as stated. The claim that the record is written with permissions that restrict access to the
  owner is false. The successful launch run in a directory that has no
  \<open>sidekick.yml\<close> creates it with mode 0644 (hexadecimal 1A4), which lets the group
  and others read it.
\<close>

theorem saved_record_is_readable_by_group_and_others:
  "fst (launchCmd example_env fresh_world) = Returned
   \<and> files fresh_world ''sidekick.yml'' = None
   \<and> map_option mode (files (snd (launchCmd example_env fresh_world)) ''sidekick.yml'') = Some 0x1A4
   \<and> \<not> owner_only 0x1A4"
  by (simp add: run_defs example_env_def fresh_world_def perm_0644_def owner_only_def)

text \<open>
  C9, as amended. A run of either command that returns has passed the record to
  \<open>os.WriteFile\<close> once, with the permission bits 0644; when that write does not fail,
  \<open>sidekick.yml\<close> then holds exactly the data written (a full overwrite). A file
  that was absent is created with 0644 less the umask, a file that was there keeps its
  mode. The bits 0644 are not owner-only: the group and others may read.
\<close>

theorem record_write_replaces_file_with_mode_0644:
  "(launchCmd env w = (Returned, w') \<and> \<not> write_err env ''sidekick.yml'' \<longrightarrow>
      (\<exists>data f.
          EvWriteFile ''sidekick.yml'' data \<in> set (calls w w')
        \<and> (\<forall>other. EvWriteFile ''sidekick.yml'' other \<in> set (calls w w') \<longrightarrow> other = data)
        \<and> files w' ''sidekick.yml'' = Some f
        \<and> content f = data
        \<and> mode f = (case files w ''sidekick.yml'' of
                       None \<Rightarrow> perm_0644 AND NOT (umask env)
                     | Some old \<Rightarrow> mode old)))
   \<and> (PreviewCmd env w = (Returned, w') \<and> \<not> write_err env ''sidekick.yml'' \<longrightarrow>
      (\<exists>data f.
          EvWriteFile ''sidekick.yml'' data \<in> set (calls w w')
        \<and> (\<forall>other. EvWriteFile ''sidekick.yml'' other \<in> set (calls w w') \<longrightarrow> other = data)
        \<and> files w' ''sidekick.yml'' = Some f
        \<and> content f = data
        \<and> mode f = (case files w ''sidekick.yml'' of
                       None \<Rightarrow> perm_0644 AND NOT (umask env)
                     | Some old \<Rightarrow> mode old)))
   \<and> perm_0644 = 0x1A4
   \<and> \<not> owner_only perm_0644"
proof (intro conjI impI)
  assume "launchCmd env w = (Returned, w') \<and> \<not> write_err env ''sidekick.yml''"
  then have ret: "fst (launchCmd env w) = Returned" and w': "w' = snd (launchCmd env w)"
    and ok: "\<not> write_err env ''sidekick.yml''"
    by simp_all
  from launchCmd_Returned_inputs [OF ret] obtain sa du dp where
      sa: "viper_values env ''serverAddress'' = Some sa"
    and du: "viper_values env ''dockerUsername'' = Some du"
    and dp: "dockerfile_port (Dockerfile env) = Some dp"
    by blast
  let ?data = "marshal_dropping_error env (LaunchYaml (launch_record env du (Show (input_name env) [])
             (launch_domain env (Show (input_name env) []) sa)))"
  let ?f = "\<lparr>content = ?data,
            mode = (case files w ''sidekick.yml'' of
                      None \<Rightarrow> perm_0644 AND NOT (umask env)
                    | Some old \<Rightarrow> mode old)\<rparr>"
  have 1: "EvWriteFile ''sidekick.yml'' ?data \<in> set (calls w w')"
    and 2: "\<forall>other. EvWriteFile ''sidekick.yml'' other \<in> set (calls w w') \<longrightarrow> other = ?data"
    unfolding w' launchCmd_Returned_calls [OF ret sa du dp] by simp_all
  have 3: "files w' ''sidekick.yml'' = Some ?f"
    unfolding w' launchCmd_Returned_files(1) [OF ret sa du] using ok by simp
  have 4: "content ?f = ?data" and 5: "mode ?f = (case files w ''sidekick.yml'' of
                      None \<Rightarrow> perm_0644 AND NOT (umask env)
                    | Some old \<Rightarrow> mode old)"
    by simp_all
  from 1 2 3 4 5 show "\<exists>data f.
          EvWriteFile ''sidekick.yml'' data \<in> set (calls w w')
        \<and> (\<forall>other. EvWriteFile ''sidekick.yml'' other \<in> set (calls w w') \<longrightarrow> other = data)
        \<and> files w' ''sidekick.yml'' = Some f
        \<and> content f = data
        \<and> mode f = (case files w ''sidekick.yml'' of
                       None \<Rightarrow> perm_0644 AND NOT (umask env)
                     | Some old \<Rightarrow> mode old)"
    by (intro exI conjI)
next
  assume "PreviewCmd env w = (Returned, w') \<and> \<not> write_err env ''sidekick.yml''"
  then have ret: "fst (PreviewCmd env w) = Returned" and w': "w' = snd (PreviewCmd env w)"
    and ok: "\<not> write_err env ''sidekick.yml''"
    by simp_all
  from PreviewCmd_Returned_inputs [OF ret] obtain c ho sa where
      c: "LoadAppConfig w = Some c"
    and ho: "git_hash_output env = Some ho"
    and sa: "viper_values env ''serverAddress'' = Some sa"
    by blast
  let ?data = "marshal_dropping_error env (AppYaml (preview_record env c (TrimSuffix ho [newline])))"
  let ?f = "\<lparr>content = ?data,
            mode = (case files w ''sidekick.yml'' of
                      None \<Rightarrow> perm_0644 AND NOT (umask env)
                    | Some old \<Rightarrow> mode old)\<rparr>"
  have 1: "EvWriteFile ''sidekick.yml'' ?data \<in> set (calls w w')"
    and 2: "\<forall>other. EvWriteFile ''sidekick.yml'' other \<in> set (calls w w') \<longrightarrow> other = ?data"
    unfolding w' PreviewCmd_Returned_calls [OF ret c ho sa] by simp_all
  have 3: "files w' ''sidekick.yml'' = Some ?f"
    unfolding w' PreviewCmd_Returned_files(1) [OF ret c ho] using ok by simp
  have 4: "content ?f = ?data" and 5: "mode ?f = (case files w ''sidekick.yml'' of
                      None \<Rightarrow> perm_0644 AND NOT (umask env)
                    | Some old \<Rightarrow> mode old)"
    by simp_all
  from 1 2 3 4 5 show "\<exists>data f.
          EvWriteFile ''sidekick.yml'' data \<in> set (calls w w')
        \<and> (\<forall>other. EvWriteFile ''sidekick.yml'' other \<in> set (calls w w') \<longrightarrow> other = data)
        \<and> files w' ''sidekick.yml'' = Some f
        \<and> content f = data
        \<and> mode f = (case files w ''sidekick.yml'' of
                       None \<Rightarrow> perm_0644 AND NOT (umask env)
                     | Some old \<Rightarrow> mode old)"
    by (intro exI conjI)
next
  show "perm_0644 = 0x1A4"
    by (simp add: perm_0644_def)
  show "\<not> owner_only perm_0644"
    by (simp add: perm_0644_def owner_only_def)
qed

theorem record_write_replaces_file_with_mode_0644_witness:
  "(launchCmd example_env fresh_world = (Returned, snd (launchCmd example_env fresh_world))
     \<and> \<not> write_err example_env ''sidekick.yml'')
   \<and> files fresh_world ''sidekick.yml'' = None
   \<and> map_option mode (files (snd (launchCmd example_env fresh_world)) ''sidekick.yml'')
       = Some (perm_0644 AND NOT (umask example_env))
   \<and> (PreviewCmd example_env launched_world = (Returned, snd (PreviewCmd example_env launched_world))
     \<and> \<not> write_err example_env ''sidekick.yml'')
   \<and> map_option mode (files launched_world ''sidekick.yml'') = Some 0x1A4
   \<and> map_option mode (files (snd (PreviewCmd example_env launched_world)) ''sidekick.yml'')
       = Some 0x1A4"
proof -
  have runl: "launchCmd example_env fresh_world = (Returned, snd (launchCmd example_env fresh_world))
     \<and> \<not> write_err example_env ''sidekick.yml''"
    by (simp add: prod_eq_iff example_launch_outcome example_inputs)
  have runp: "PreviewCmd example_env launched_world
                = (Returned, snd (PreviewCmd example_env launched_world))
     \<and> \<not> write_err example_env ''sidekick.yml''"
    by (simp add: prod_eq_iff example_preview_outcome example_inputs)
  have fresh: "files fresh_world ''sidekick.yml'' = None"
    by (simp add: fresh_world_def)
  have old: "files launched_world ''sidekick.yml''
               = Some \<lparr>content = AppYaml blog_config, mode = 0x1A4\<rparr>"
    by (simp add: launched_world_def)
  note w = record_write_replaces_file_with_mode_0644
    [of example_env fresh_world "snd (launchCmd example_env fresh_world)"]
  from mp [OF w [THEN conjunct1] runl] obtain f where
    "files (snd (launchCmd example_env fresh_world)) ''sidekick.yml'' = Some f"
    "mode f = (case files fresh_world ''sidekick.yml'' of
                 None \<Rightarrow> perm_0644 AND NOT (umask example_env)
               | Some old \<Rightarrow> mode old)"
    by (elim exE conjE)
  with fresh
  have l: "map_option mode (files (snd (launchCmd example_env fresh_world)) ''sidekick.yml'')
       = Some (perm_0644 AND NOT (umask example_env))"
    by simp
  note v = record_write_replaces_file_with_mode_0644
    [of example_env launched_world "snd (PreviewCmd example_env launched_world)"]
  from mp [OF v [THEN conjunct2, THEN conjunct1] runp] obtain g where
    "files (snd (PreviewCmd example_env launched_world)) ''sidekick.yml'' = Some g"
    "mode g = (case files launched_world ''sidekick.yml'' of
                 None \<Rightarrow> perm_0644 AND NOT (umask example_env)
               | Some old \<Rightarrow> mode old)"
    by (elim exE conjE)
  with old
  have p: "map_option mode (files (snd (PreviewCmd example_env launched_world)) ''sidekick.yml'')
       = Some 0x1A4"
    by simp
  from old have o: "map_option mode (files launched_world ''sidekick.yml'') = Some 0x1A4"
    by simp
  from runl runp fresh l p o show ?thesis
    by (elim conjE, intro conjI)
qed

subsection \<open>The port offered at the prompt of launch\<close>

text \<open>
  C10. When the Dockerfile has a line that begins with \<open>EXPOSE\<close>, the scan never
  panics, in the scan itself and in any launch run, and the port it hands to the prompt
  as default value is the last four bytes of the last such line; a user who only
  confirms gets exactly these bytes. It is not the token after the keyword: when the
  last such line is \<open>EXPOSE\<close>, a space and a port \<open>p\<close> of fewer than four bytes,
  the default is \<open>p\<close> with the bytes of \<open>EXPOSE\<close> and the space that come before
  it in the last four. The launch run uses this default: when the user confirms the
  offered port, every compose document the run writes binds the load balancer port to
  these four bytes, and a run that returns has written such a document.
\<close>

theorem launch_default_port_is_last_four_bytes:
  "expose_lines s \<noteq> [] \<Longrightarrow>
     dockerfile_port (Some s) =
       Some (drop (length (last (expose_lines s)) - 4) (last (expose_lines s)))
     \<and> Show None (drop (length (last (expose_lines s)) - 4) (last (expose_lines s)))
         = drop (length (last (expose_lines s)) - 4) (last (expose_lines s))
     \<and> (\<forall>p. last (expose_lines s) = ''EXPOSE '' @ p \<and> length p < 4 \<longrightarrow>
            dockerfile_port (Some s) = Some (drop (3 + length p) ''EXPOSE '' @ p)
            \<and> drop (3 + length p) ''EXPOSE '' \<noteq> [])
     \<and> (\<forall>(env :: 'p env) w. Dockerfile env = Some s \<longrightarrow>
            fst (launchCmd env w) \<noteq> Panicked SliceBounds)
     \<and> (\<forall>(env :: 'p env) w name d.
            Dockerfile env = Some s \<and> input_port env = None
            \<and> EvWriteFile name (ComposeYaml d) \<in> set (calls w (snd (launchCmd env w))) \<longrightarrow>
            (\<exists>svc. Services d = [Show (input_name env) [] \<mapsto> svc]
               \<and> svc_Labels svc ! 2 =
                   ''traefik.http.services.'' @ Show (input_name env) []
                     @ ''.loadbalancer.server.port=''
                     @ drop (length (last (expose_lines s)) - 4) (last (expose_lines s))))
     \<and> (\<forall>(env :: 'p env) w w'.
            Dockerfile env = Some s \<and> input_port env = None
            \<and> launchCmd env w = (Returned, w') \<longrightarrow>
            (\<exists>d svc. EvWriteFile ''docker-compose.yaml'' (ComposeYaml d) \<in> set (calls w w')
               \<and> Services d = [Show (input_name env) [] \<mapsto> svc]
               \<and> svc_Labels svc ! 2 =
                   ''traefik.http.services.'' @ Show (input_name env) []
                     @ ''.loadbalancer.server.port=''
                     @ drop (length (last (expose_lines s)) - 4) (last (expose_lines s))))"
proof (intro conjI allI impI)
  let ?four = "drop (length (last (expose_lines s)) - 4) (last (expose_lines s))"
  assume ne: "expose_lines s \<noteq> []"
  show a: "dockerfile_port (Some s) = Some ?four"
    using ne by (rule dockerfile_port_expose)
  show "Show None ?four = ?four"
    by (simp add: Show_def)
  {
    fix p
    assume p: "last (expose_lines s) = ''EXPOSE '' @ p \<and> length p < 4"
    have len: "length (''EXPOSE '' @ p) - 4 = 3 + length p"
      by simp
    have le: "3 + length p \<le> length ''EXPOSE ''"
      using p by simp
    have "drop (length (''EXPOSE '' @ p) - 4) (''EXPOSE '' @ p) = drop (3 + length p) ''EXPOSE '' @ p"
      by (simp only: len drop_append_keep [OF le])
    with p a show "dockerfile_port (Some s) = Some (drop (3 + length p) ''EXPOSE '' @ p)"
      by (simp only:)
    from p show "drop (3 + length p) ''EXPOSE '' \<noteq> []"
      by simp
  }
  {
    fix env :: "'p env" and w
    assume "Dockerfile env = Some s"
    with a have dp: "dockerfile_port (Dockerfile env) = Some ?four"
      by simp
    show "fst (launchCmd env w) \<noteq> Panicked SliceBounds"
      by (simp add: launchCmd_def Let_def case_prod_beta dp launch_deploy_def
            split: option.splits)
  }
  {
    fix env :: "'p env" and w name d
    assume h: "Dockerfile env = Some s \<and> input_port env = None
            \<and> EvWriteFile name (ComposeYaml d) \<in> set (calls w (snd (launchCmd env w)))"
    with a have dp: "dockerfile_port (Dockerfile env) = Some ?four"
      by simp
    from h obtain sa du dp' where
        "dockerfile_port (Dockerfile env) = Some dp'"
        "d = launch_compose (Show (input_name env) [])
             (launch_service (du @ ''/'' @ Show (input_name env) []) (Show (input_name env) [])
                (launch_domain env (Show (input_name env) []) sa) (Show (input_port env) dp'))"
      by (blast elim: launchCmd_compose_written)
    with dp h have d: "d = launch_compose (Show (input_name env) [])
             (launch_service (du @ ''/'' @ Show (input_name env) []) (Show (input_name env) [])
                (launch_domain env (Show (input_name env) []) sa) ?four)"
      by (simp add: Show_def)
    show "\<exists>svc. Services d = [Show (input_name env) [] \<mapsto> svc]
               \<and> svc_Labels svc ! 2 =
                   ''traefik.http.services.'' @ Show (input_name env) []
                     @ ''.loadbalancer.server.port='' @ ?four"
      unfolding d
      by (rule_tac x = "launch_service (du @ ''/'' @ Show (input_name env) [])
             (Show (input_name env) []) (launch_domain env (Show (input_name env) []) sa) ?four"
            in exI)
         (simp add: launch_compose_def launch_service_fields)
  }
  {
    fix env :: "'p env" and w w'
    assume h: "Dockerfile env = Some s \<and> input_port env = None
            \<and> launchCmd env w = (Returned, w')"
    then have ret: "fst (launchCmd env w) = Returned" and w': "w' = snd (launchCmd env w)"
      by simp_all
    from h a have dp: "dockerfile_port (Dockerfile env) = Some ?four"
      by simp
    from launchCmd_Returned_inputs [OF ret] obtain sa du where
        sa: "viper_values env ''serverAddress'' = Some sa"
      and du: "viper_values env ''dockerUsername'' = Some du"
      by blast
    let ?svc = "launch_service (du @ ''/'' @ Show (input_name env) [])
             (Show (input_name env) []) (launch_domain env (Show (input_name env) []) sa) ?four"
    let ?d = "launch_compose (Show (input_name env) []) ?svc"
    have port: "Show (input_port env) ?four = ?four"
      using h by (simp add: Show_def)
    have 1: "EvWriteFile ''docker-compose.yaml'' (ComposeYaml ?d) \<in> set (calls w w')"
      unfolding w' launchCmd_Returned_calls [OF ret sa du dp] port by simp
    have 2: "Services ?d = [Show (input_name env) [] \<mapsto> ?svc]"
      by (simp add: launch_compose_def)
    have 3: "svc_Labels ?svc ! 2 =
                   ''traefik.http.services.'' @ Show (input_name env) []
                     @ ''.loadbalancer.server.port='' @ ?four"
      by (simp add: launch_service_fields)
    from 1 2 3 show "\<exists>d svc. EvWriteFile ''docker-compose.yaml'' (ComposeYaml d) \<in> set (calls w w')
               \<and> Services d = [Show (input_name env) [] \<mapsto> svc]
               \<and> svc_Labels svc ! 2 =
                   ''traefik.http.services.'' @ Show (input_name env) []
                     @ ''.loadbalancer.server.port='' @ ?four"
      by (intro exI conjI)
  }
qed

theorem launch_default_port_is_last_four_bytes_witness:
  "expose_lines (''FROM alpine'' @ [newline] @ ''EXPOSE 80'') \<noteq> []
   \<and> dockerfile_port (Some (''FROM alpine'' @ [newline] @ ''EXPOSE 80'')) = Some ''E 80''
   \<and> (Dockerfile confirm_port_env = Some (''FROM alpine'' @ [newline] @ ''EXPOSE 80'')
        \<and> input_port confirm_port_env = None
        \<and> launchCmd confirm_port_env fresh_world
            = (Returned, snd (launchCmd confirm_port_env fresh_world)))
   \<and> (\<exists>d svc.
          EvWriteFile ''docker-compose.yaml'' (ComposeYaml d)
            \<in> set (calls fresh_world (snd (launchCmd confirm_port_env fresh_world)))
        \<and> Services d = [''blog'' \<mapsto> svc]
        \<and> svc_Labels svc ! 2 = ''traefik.http.services.blog.loadbalancer.server.port=E 80'')"
proof -
  let ?s = "''FROM alpine'' @ [newline] @ ''EXPOSE 80''"
  have e: "expose_lines ?s = [''EXPOSE 80'']"
    by (simp add: expose_lines_def HasPrefix_def newline_def)
  then have ne: "expose_lines ?s \<noteq> []"
    by simp
  have h: "Dockerfile confirm_port_env = Some ?s
        \<and> input_port confirm_port_env = None
        \<and> launchCmd confirm_port_env fresh_world
            = (Returned, snd (launchCmd confirm_port_env fresh_world))"
    by (simp add: prod_eq_iff run_defs confirm_port_env_def example_env_def fresh_world_def)
  have n: "Show (input_name confirm_port_env) [] = ''blog''"
    by (simp add: Show_def confirm_port_env_def example_env_def)
  note port = launch_default_port_is_last_four_bytes [OF ne, where ?'p = string]
  from port have 1: "dockerfile_port (Some ?s) = Some ''E 80''"
    unfolding e by simp
  from port have "\<forall>(env :: string env) w w'.
            Dockerfile env = Some ?s \<and> input_port env = None
            \<and> launchCmd env w = (Returned, w') \<longrightarrow>
            (\<exists>d svc. EvWriteFile ''docker-compose.yaml'' (ComposeYaml d) \<in> set (calls w w')
               \<and> Services d = [Show (input_name env) [] \<mapsto> svc]
               \<and> svc_Labels svc ! 2 =
                   ''traefik.http.services.'' @ Show (input_name env) []
                     @ ''.loadbalancer.server.port=''
                     @ drop (length (last (expose_lines ?s)) - 4) (last (expose_lines ?s)))"
    by (elim conjE)
  from this [rule_format, OF h]
  have 2: "\<exists>d svc.
          EvWriteFile ''docker-compose.yaml'' (ComposeYaml d)
            \<in> set (calls fresh_world (snd (launchCmd confirm_port_env fresh_world)))
        \<and> Services d = [''blog'' \<mapsto> svc]
        \<and> svc_Labels svc ! 2 = ''traefik.http.services.blog.loadbalancer.server.port=E 80''"
    unfolding e n by simp
  from ne 1 h 2 show ?thesis
    by (elim conjE, intro conjI)
qed

end
